theory Spec2Isabelle
  imports Main
begin

section \<open>JavaScript values\<close>

text \<open>
  A JavaScript string is a sequence of UTF-16 code units; it is modelled as a list of
  natural numbers, one per code unit. \<open>lit\<close> turns an ASCII literal of the source
  into such a string.
\<close>

type_synonym jstr = "nat list"

definition lit :: "string \<Rightarrow> jstr" where
  "lit s = map of_char s"

text \<open>
  The values \<open>JSON.parse\<close> can return. An object keeps its entries in source order
  (a later duplicate key wins on lookup). Numbers are modelled by integers: the
  fractional and very large doubles of JavaScript are outside this embedding.
  The value \<open>undefined\<close> is \<open>None\<close> of \<open>json option\<close>.
\<close>

datatype json =
    JNull
  | JBool bool
  | JNum int
  | JStr jstr
  | JArr "json list"
  | JObj "(jstr \<times> json) list"

datatype error =
    TypeError
  | SyntaxError
  | AbortError
  | URIError
  | NetworkError
  | Error jstr

text \<open>Truthiness, as tested by \<open>if (v)\<close>, \<open>v || w\<close> and \<open>v && w\<close>.\<close>

fun truthy :: "json \<Rightarrow> bool" where
  "truthy JNull = False"
| "truthy (JBool b) = b"
| "truthy (JNum n) = (n \<noteq> 0)"
| "truthy (JStr s) = (s \<noteq> [])"
| "truthy (JArr xs) = True"
| "truthy (JObj kvs) = True"

fun truthy_opt :: "json option \<Rightarrow> bool" where
  "truthy_opt None = False"
| "truthy_opt (Some v) = truthy v"

text \<open>Property read \<open>v.k\<close> on a value that is neither null nor undefined.\<close>

fun js_get :: "json \<Rightarrow> jstr \<Rightarrow> json option" where
  "js_get (JObj kvs) k = map_of (rev kvs) k"
| "js_get v k = None"

text \<open>Element read \<open>v[0]\<close> on a value that is neither null nor undefined.\<close>

fun js_idx0 :: "json \<Rightarrow> json option" where
  "js_idx0 (JArr xs) = (case xs of [] \<Rightarrow> None | x # _ \<Rightarrow> Some x)"
| "js_idx0 (JObj kvs) = map_of (rev kvs) (lit ''0'')"
| "js_idx0 (JStr s) = (case s of [] \<Rightarrow> None | c # _ \<Rightarrow> Some (JStr [c]))"
| "js_idx0 v = None"

text \<open>Optional chaining: \<open>v?.k\<close> and \<open>v?.[0]\<close> give undefined on null and undefined.\<close>

fun opt_get :: "json option \<Rightarrow> jstr \<Rightarrow> json option" where
  "opt_get None k = None"
| "opt_get (Some JNull) k = None"
| "opt_get (Some v) k = js_get v k"

fun opt_idx0 :: "json option \<Rightarrow> json option" where
  "opt_idx0 None = None"
| "opt_idx0 (Some JNull) = None"
| "opt_idx0 (Some v) = js_idx0 v"

text \<open>Decimal digits of a number, for \<open>String(n)\<close>.\<close>

fun show_nat :: "nat \<Rightarrow> jstr" where
  "show_nat n = (if n < 10 then [48 + n] else show_nat (n div 10) @ [48 + n mod 10])"

declare show_nat.simps [simp del]

definition show_int :: "int \<Rightarrow> jstr" where
  "show_int i = (if i < 0 then 45 # show_nat (nat (- i)) else show_nat (nat i))"

fun join_comma :: "jstr list \<Rightarrow> jstr" where
  "join_comma [] = []"
| "join_comma [s] = s"
| "join_comma (s # t # ss) = s @ 44 # join_comma (t # ss)"

text \<open>The results of a list of steps, up to the first raise.\<close>

fun all_or_raise :: "(error + 'a) list \<Rightarrow> error + 'a list" where
  "all_or_raise [] = Inr []"
| "all_or_raise (r # rs) =
     (case r of
        Inl e \<Rightarrow> Inl e
      | Inr x \<Rightarrow> (case all_or_raise rs of Inl e \<Rightarrow> Inl e | Inr xs \<Rightarrow> Inr (x # xs)))"

text \<open>
  \<open>String(v)\<close>, which is also the conversion of \<open>${v}\<close> in a template literal, of the
  message of \<open>new Error(v)\<close> and of the argument of \<open>encodeURIComponent\<close>. An array
  is its elements joined by commas, with null elements empty. An object is
  \<open>[object Object]\<close>, by \<open>Object.prototype.toString\<close>, unless it has a key
  \<open>toString\<close> of its own: the value of that key, coming from JSON, is not callable, and
  \<open>valueOf\<close> gives no primitive value either, so the conversion raises a TypeError.
\<close>

fun js_String :: "json \<Rightarrow> error + jstr" where
  "js_String JNull = Inr (lit ''null'')"
| "js_String (JBool b) = Inr (if b then lit ''true'' else lit ''false'')"
| "js_String (JNum n) = Inr (show_int n)"
| "js_String (JStr s) = Inr s"
| "js_String (JArr xs) =
     (case all_or_raise (map (\<lambda>x. if x = JNull then Inr [] else js_String x) xs) of
        Inl e \<Rightarrow> Inl e
      | Inr parts \<Rightarrow> Inr (join_comma parts))"
| "js_String (JObj kvs) =
     (if lit ''toString'' \<in> set (map fst kvs) then Inl TypeError else Inr (lit ''[object Object]''))"

fun template_str :: "json option \<Rightarrow> error + jstr" where
  "template_str None = Inr (lit ''undefined'')"
| "template_str (Some v) = js_String v"

text \<open>Whether the conversion of a value to a string returns.\<close>

definition stringifiable :: "json \<Rightarrow> bool" where
  "stringifiable v = (case js_String v of Inl e \<Rightarrow> False | Inr t \<Rightarrow> True)"

section \<open>Result merge engine\<close>

text \<open>
  The assistant message of one exchange is the accumulator. Its \<open>content\<close> is always
  a string in the source (it starts as \<open>''\<close> and is only assigned strings), so
  \<open>String(msg.content || '')\<close> is \<open>content msg\<close>. The fields of \<open>msg.meta\<close>
  hold whatever value the wire delivered; \<open>async\<close> is absent until the poller
  writes its note.
\<close>

record msg_meta =
  citations :: json
  search_results :: json
  usage :: json
  reasoning_steps :: json
  images :: json
  videos :: json
  related_questions :: json
  async :: "jstr option"

record msg =
  role :: jstr
  content :: jstr
  meta :: msg_meta

text \<open>\<open>if (v) msg.meta.f = v\<close>, with \<open>upd\<close> the update of field \<open>f\<close>.\<close>

definition assign_if ::
  "json option \<Rightarrow> ((json \<Rightarrow> json) \<Rightarrow> msg_meta \<Rightarrow> msg_meta) \<Rightarrow> msg \<Rightarrow> msg" where
  "assign_if v upd m =
     (case v of
        None \<Rightarrow> m
      | Some x \<Rightarrow> if truthy x then m\<lparr>meta := upd (\<lambda>_. x) (meta m)\<rparr> else m)"

text \<open>\<open>const delta = chunk?.choices?.[0]?.delta\<close>.\<close>

definition chunk_delta :: "json \<Rightarrow> json option" where
  "chunk_delta chunk = opt_get (opt_idx0 (opt_get (Some chunk) (lit ''choices''))) (lit ''delta'')"

text \<open>
  \<open>if (c) msg.content = String(msg.content || '') + String(c)\<close>. The conversion of
  \<open>c\<close> may raise; the assignment has not happened then.
\<close>

definition append_delta :: "msg \<Rightarrow> json option \<Rightarrow> error + msg" where
  "append_delta m c =
     (case c of
        None \<Rightarrow> Inr m
      | Some v \<Rightarrow>
          if truthy v
          then (case js_String v of
                  Inl e \<Rightarrow> Inl e
                | Inr t \<Rightarrow> Inr (m\<lparr>content := content m @ t\<rparr>))
          else Inr m)"

text \<open>
  \<open>applyPerplexityChunk(msg, chunk)\<close>. It raises a TypeError in two places, both
  before its first write, so that \<open>msg\<close> is as it was when it raises: at the conversion
  of the content delta, and at \<open>chunk.citations\<close> for a null chunk (the reads of the
  side-channel fields are not optional-chained; \<open>chunk?.choices\<close> is undefined for a
  null chunk, so nothing has been appended).
\<close>

definition applyPerplexityChunk :: "msg \<Rightarrow> json \<Rightarrow> error + msg" where
  "applyPerplexityChunk m chunk =
     (let delta = chunk_delta chunk
      in case append_delta m (opt_get delta (lit ''content'')) of
           Inl e \<Rightarrow> Inl e
         | Inr m1 \<Rightarrow>
             if chunk = JNull then Inl TypeError
             else
               (let m2 = assign_if (js_get chunk (lit ''citations'')) citations_update m1;
                    m3 = assign_if (js_get chunk (lit ''search_results'')) search_results_update m2;
                    m4 = assign_if (js_get chunk (lit ''usage'')) usage_update m3;
                    m5 = assign_if (js_get chunk (lit ''reasoning_steps'')) reasoning_steps_update m4;
                    m6 = assign_if (js_get chunk (lit ''images'')) images_update m5;
                    m7 = assign_if (js_get chunk (lit ''videos'')) videos_update m6;
                    m8 = assign_if (js_get chunk (lit ''related_questions'')) related_questions_update m7;
                    m9 = assign_if (opt_get delta (lit ''reasoning_steps'')) reasoning_steps_update m8
                in Inr m9))"

text \<open>
  \<open>applyPerplexityFinal(msg, data)\<close>. Every read is optional-chained; the one raise is
  the TypeError of \<open>String(content)\<close>, before the first write.
  \<open>final_content\<close> is \<open>data?.choices?.[0]?.message?.content\<close>.
\<close>

definition final_content :: "json \<Rightarrow> json option" where
  "final_content data =
     opt_get (opt_get (opt_idx0 (opt_get (Some data) (lit ''choices''))) (lit ''message''))
       (lit ''content'')"

text \<open>\<open>if (c != null) msg.content = String(c)\<close>.\<close>

definition set_content :: "msg \<Rightarrow> json option \<Rightarrow> error + msg" where
  "set_content m c =
     (case c of
        None \<Rightarrow> Inr m
      | Some v \<Rightarrow>
          if v \<noteq> JNull
          then (case js_String v of
                  Inl e \<Rightarrow> Inl e
                | Inr t \<Rightarrow> Inr (m\<lparr>content := t\<rparr>))
          else Inr m)"

definition applyPerplexityFinal :: "msg \<Rightarrow> json \<Rightarrow> error + msg" where
  "applyPerplexityFinal m data =
     (let c = final_content data
      in case set_content m c of
           Inl e \<Rightarrow> Inl e
         | Inr m1 \<Rightarrow>
             (let m2 = assign_if (opt_get (Some data) (lit ''citations'')) citations_update m1;
                  m3 = assign_if (opt_get (Some data) (lit ''search_results'')) search_results_update m2;
                  m4 = assign_if (opt_get (Some data) (lit ''usage'')) usage_update m3;
                  m5 = assign_if (opt_get (Some data) (lit ''reasoning_steps'')) reasoning_steps_update m4;
                  m6 = assign_if (opt_get (Some data) (lit ''images'')) images_update m5;
                  m7 = assign_if (opt_get (Some data) (lit ''videos'')) videos_update m6;
                  m8 = assign_if (opt_get (Some data) (lit ''related_questions'')) related_questions_update m7
              in Inr m8))"


text \<open>The event \<open>{"choices":[{"delta":{"content": d}}]}\<close>: a content delta and nothing else.\<close>

definition content_event :: "jstr \<Rightarrow> json" where
  "content_event d =
     JObj [(lit ''choices'', JArr [JObj [(lit ''delta'', JObj [(lit ''content'', JStr d)])]])]"

text \<open>
  The outcome of a guarded assignment as a function of the old value: the new value when
  it is truthy, the old one otherwise.
\<close>

definition replace_or_keep :: "json option \<Rightarrow> json \<Rightarrow> json" where
  "replace_or_keep v old = (case v of None \<Rightarrow> old | Some x \<Rightarrow> if truthy x then x else old)"

text \<open>
  Whether the content delta of an event can be appended: it is absent, or not truthy, or
  its conversion to a string returns.
\<close>

definition content_converts :: "json \<Rightarrow> bool" where
  "content_converts chunk =
     (case opt_get (chunk_delta chunk) (lit ''content'') of
        None \<Rightarrow> True
      | Some c \<Rightarrow> if truthy c then stringifiable c else True)"

text \<open>
  The incremental event that carries what a final payload carries: its content as the
  delta of the first choice, and each side-channel field the payload has, at top level.
\<close>

definition side_fields :: "jstr list" where
  "side_fields = [lit ''citations'', lit ''search_results'', lit ''usage'', lit ''reasoning_steps'',
                  lit ''images'', lit ''videos'', lit ''related_questions'']"

definition event_of_final :: "json \<Rightarrow> json" where
  "event_of_final data =
     JObj ((lit ''choices'',
            JArr [JObj [(lit ''delta'',
                         JObj (case final_content data of
                                 None \<Rightarrow> []
                               | Some c \<Rightarrow> [(lit ''content'', c)]))]])
           # concat (map (\<lambda>k. case opt_get (Some data) k of None \<Rightarrow> [] | Some v \<Rightarrow> [(k, v)])
                        side_fields))"

text \<open>The accumulator as \<open>sendPrompt\<close> creates it.\<close>

definition fresh_msg :: msg where
  "fresh_msg =
     \<lparr>role = lit ''assistant'', content = [],
      meta = \<lparr>citations = JArr [], search_results = JArr [], usage = JObj [],
              reasoning_steps = JArr [], images = JArr [], videos = JArr [],
              related_questions = JArr [], async = None\<rparr>\<rparr>"

text \<open>Accumulators and events of the examples.\<close>

definition stale_msg :: msg where
  "stale_msg = fresh_msg\<lparr>content := lit ''abc'',
      meta := (meta fresh_msg)\<lparr>citations := JArr [JStr (lit ''old'')]\<rparr>\<rparr>"

definition override_event :: json where
  "override_event =
     JObj [(lit ''choices'', JArr [JObj [(lit ''delta'',
              JObj [(lit ''reasoning_steps'', JArr [JStr (lit ''b'')])])]]),
           (lit ''citations'', JNull),
           (lit ''reasoning_steps'', JArr [JStr (lit ''a'')])]"

definition citations_event :: "string \<Rightarrow> json" where
  "citations_event u = JObj [(lit ''citations'', JArr [JStr (lit u)])]"

definition unconvertible_event :: json where
  "unconvertible_event =
     JObj [(lit ''choices'', JArr [JObj [(lit ''delta'',
              JObj [(lit ''content'', JObj [(lit ''toString'', JNum 0)])])]]),
           (lit ''citations'', JArr [JStr (lit ''a'')])]"

definition text_payload :: "string \<Rightarrow> json" where
  "text_payload t =
     JObj [(lit ''choices'', JArr [JObj [(lit ''message'', JObj [(lit ''content'', JStr (lit t))])]]),
           (lit ''citations'', JArr [JStr (lit ''u'')])]"

section \<open>Event decoder\<close>

text \<open>
  \<open>buffer.split(/\n\n/)\<close>: the pieces between the leftmost, non-overlapping
  occurrences of two line feeds (code unit 10). \<open>cur\<close> is the piece being scanned.
\<close>

fun split_acc :: "jstr \<Rightarrow> jstr \<Rightarrow> jstr list" where
  "split_acc cur (a # b # rest) =
     (if a = 10 \<and> b = 10 then cur # split_acc [] rest else split_acc (cur @ [a]) (b # rest))"
| "split_acc cur s = [cur @ s]"

definition split_blank :: "jstr \<Rightarrow> jstr list" where
  "split_blank s = split_acc [] s"

text \<open>\<open>evt.split(/\n/)\<close>.\<close>

fun split_nl_acc :: "jstr \<Rightarrow> jstr \<Rightarrow> jstr list" where
  "split_nl_acc cur [] = [cur]"
| "split_nl_acc cur (a # rest) =
     (if a = 10 then cur # split_nl_acc [] rest else split_nl_acc (cur @ [a]) rest)"

definition split_nl :: "jstr \<Rightarrow> jstr list" where
  "split_nl s = split_nl_acc [] s"

text \<open>
  \<open>String.prototype.trim\<close> removes the white space and line terminator code units of
  ECMAScript from both ends.
\<close>

definition js_space :: "nat \<Rightarrow> bool" where
  "js_space c \<longleftrightarrow>
     c \<in> {9, 10, 11, 12, 13, 32, 160, 5760, 8232, 8233, 8239, 8287, 12288, 65279}
     \<or> (8192 \<le> c \<and> c \<le> 8202)"

definition trim :: "jstr \<Rightarrow> jstr" where
  "trim s = rev (dropWhile js_space (rev (dropWhile js_space s)))"

text \<open>\<open>evt.split(/\n/).map((l) => l.trim()).filter(Boolean)\<close>.\<close>

definition event_lines :: "jstr \<Rightarrow> jstr list" where
  "event_lines evt = filter (\<lambda>l. l \<noteq> []) (map trim (split_nl evt))"

text \<open>
  The loop over the lines of one event. \<open>parse\<close> is \<open>JSON.parse\<close>, with
  \<open>None\<close> for a raise, so that \<open>safeJsonParse\<close> returns null for it. The result is
  the list of objects handed to \<open>onChunk\<close>, in order, and whether the \<open>[DONE]\<close>
  sentinel made \<open>consumeSSE\<close> return.
\<close>

fun line_loop :: "(jstr \<Rightarrow> json option) \<Rightarrow> jstr list \<Rightarrow> json list \<times> bool" where
  "line_loop parse [] = ([], False)"
| "line_loop parse (line # ls) =
     (if take 5 line \<noteq> lit ''data:'' then line_loop parse ls
      else
        (let data = trim (drop 5 line)
         in if data = [] then line_loop parse ls
            else if data = lit ''[DONE]'' then ([], True)
            else
              (case parse data of
                 None \<Rightarrow> line_loop parse ls
               | Some obj \<Rightarrow>
                   if truthy obj
                   then (case line_loop parse ls of (out, fin) \<Rightarrow> (obj # out, fin))
                   else line_loop parse ls)))"

text \<open>The loop over the complete events of one read.\<close>

fun event_loop :: "(jstr \<Rightarrow> json option) \<Rightarrow> jstr list \<Rightarrow> json list \<times> bool" where
  "event_loop parse [] = ([], False)"
| "event_loop parse (evt # evts) =
     (case line_loop parse (event_lines evt) of
        (out, fin) \<Rightarrow>
          if fin then (out, True)
          else (case event_loop parse evts of (out', fin') \<Rightarrow> (out @ out', fin')))"

text \<open>
  The read loop of \<open>consumeSSE\<close>. The body is the list of chunks the reader delivers
  before it reports \<open>done\<close>. \<open>dec\<close> is \<open>decoder.decode(value, {stream: true})\<close>:
  from the decoder's state and a chunk of bytes it gives the decoded text and the next state.
  \<open>events.pop() || ''\<close> is the last piece, or the empty string where there is none.
\<close>

fun read_loop ::
  "('d \<Rightarrow> 'b list \<Rightarrow> jstr \<times> 'd) \<Rightarrow> (jstr \<Rightarrow> json option) \<Rightarrow> 'd \<Rightarrow> jstr \<Rightarrow> 'b list list \<Rightarrow> json list"
  where
  "read_loop dec parse d buffer [] = []"
| "read_loop dec parse d buffer (chunk # chunks) =
     (case dec d chunk of
        (text, d') \<Rightarrow>
          (let events = split_blank (buffer @ text);
               buffer' = (if events = [] then [] else last events)
           in case event_loop parse (butlast events) of
                (out, fin) \<Rightarrow>
                  if fin then out else out @ read_loop dec parse d' buffer' chunks))"

definition consumeSSE ::
  "('d \<Rightarrow> 'b list \<Rightarrow> jstr \<times> 'd) \<Rightarrow> 'd \<Rightarrow> (jstr \<Rightarrow> json option) \<Rightarrow> 'b list list \<Rightarrow> json list"
  where
  "consumeSSE dec d0 parse chunks = read_loop dec parse d0 [] chunks"

text \<open>
  What a streaming decoder guarantees: decoding a chunk in two parts gives the same text
  and the same final state as decoding it at once.
\<close>

definition stream_law :: "('d \<Rightarrow> 'b list \<Rightarrow> jstr \<times> 'd) \<Rightarrow> bool" where
  "stream_law dec \<longleftrightarrow>
     (\<forall>d a b. dec d (a @ b) =
        (case dec d a of (s1, d1) \<Rightarrow> case dec d1 b of (s2, d2) \<Rightarrow> (s1 @ s2, d2)))"

text \<open>The whole text the decoder produces over a sequence of chunks.\<close>

fun decode_all :: "('d \<Rightarrow> 'b list \<Rightarrow> jstr \<times> 'd) \<Rightarrow> 'd \<Rightarrow> 'b list list \<Rightarrow> jstr" where
  "decode_all dec d [] = []"
| "decode_all dec d (chunk # chunks) =
     (case dec d chunk of (text, d') \<Rightarrow> text @ decode_all dec d' chunks)"

text \<open>
  Concrete instances for the examples: the UTF-8 decoder on ASCII bytes, where each byte
  is one code unit and no state is kept, and \<open>JSON.parse\<close> on the two payloads of the
  example stream.
\<close>

definition ascii_decode :: "unit \<Rightarrow> nat list \<Rightarrow> jstr \<times> unit" where
  "ascii_decode d bytes = (bytes, d)"

definition parse_two :: "jstr \<Rightarrow> json option" where
  \<open>parse_two s =
     (if s = lit ''{"choices":[{"delta":{"content":"Hi"}}]}'' then Some (content_event (lit ''Hi''))
      else if s = lit ''{"citations":["u"]}'' then Some (JObj [(lit ''citations'', JArr [JStr (lit ''u'')])])
      else None)\<close>

text \<open>
  The example stream, as bytes: two events, cut in the middle of the blank line that
  separates them; and the same second half without the blank line that should end it.
\<close>

definition stream_head :: "nat list" where
  \<open>stream_head = lit ''data: {"choices":[{"delta":{"content":"Hi"}}]}'' @ [10]\<close>

definition stream_tail :: "nat list" where
  \<open>stream_tail = [10] @ lit ''data: {"citations":["u"]}'' @ [10, 10]\<close>

definition stream_tail_open :: "nat list" where
  \<open>stream_tail_open = [10] @ lit ''data: {"citations":["u"]}'' @ [10]\<close>

section \<open>Redrawing the message\<close>

text \<open>
  \<open>updateMessageElement\<close> redraws the accumulator after each write of the poller. What
  matters to the poller is whether the redraw returns or raises. On the JSON values of the
  accumulator every raise of the renderer is a TypeError: a property read on null, a call
  of \<open>forEach\<close> on a value that has none, or a conversion to a string. The calls into
  the document, \<open>marked\<close>, \<open>DOMPurify\<close> and \<open>hljs\<close> are taken to return.
\<close>

text \<open>\<open>v.length\<close> on a truthy value, and the guard \<open>v && v.length\<close>.\<close>

fun js_length :: "json \<Rightarrow> json option" where
  "js_length (JArr xs) = Some (JNum (int (length xs)))"
| "js_length (JStr s) = Some (JNum (int (length s)))"
| "js_length (JObj kvs) = map_of (rev kvs) (lit ''length'')"
| "js_length v = None"

definition has_items :: "json \<Rightarrow> bool" where
  "has_items f \<longleftrightarrow> truthy f \<and> truthy_opt (js_length f)"

text \<open>\<open>r.k1 || r.k2 || d\<close> on a value \<open>r\<close> that is not null.\<close>

fun pick_first :: "json \<Rightarrow> jstr list \<Rightarrow> json \<Rightarrow> json" where
  "pick_first r [] d = d"
| "pick_first r (k # ks) d =
     (case js_get r k of
        None \<Rightarrow> pick_first r ks d
      | Some v \<Rightarrow> if truthy v then v else pick_first r ks d)"

text \<open>
  The callbacks of the \<open>forEach\<close> calls of \<open>renderMetaBlocks\<close>: whether each returns
  on an element. \<open>escapeHtml\<close> and \<open>escapeHtmlAttr\<close> convert their argument with
  \<open>String\<close>; \<open>btn.textContent = q\<close> converts \<open>q\<close> likewise.
\<close>

definition citation_ok :: "json \<Rightarrow> bool" where
  "citation_ok url = stringifiable url"

definition search_result_ok :: "json \<Rightarrow> bool" where
  "search_result_ok r \<longleftrightarrow>
     r \<noteq> JNull
     \<and> stringifiable (pick_first r [lit ''title'', lit ''url''] (JStr (lit ''Result'')))
     \<and> stringifiable (pick_first r [lit ''url''] (JStr []))
     \<and> stringifiable (pick_first r [lit ''date'', lit ''last_updated''] (JStr []))
     \<and> stringifiable (pick_first r [lit ''snippet''] (JStr []))"

definition reasoning_step_ok :: "json \<Rightarrow> bool" where
  "reasoning_step_ok s \<longleftrightarrow>
     s \<noteq> JNull
     \<and> stringifiable (pick_first s [lit ''type''] (JStr (lit ''step'')))
     \<and> stringifiable (pick_first s [lit ''thought''] (JStr []))"

definition image_ok :: "json \<Rightarrow> bool" where
  "image_ok img =
     (case img of
        JStr u \<Rightarrow> True
      | JNull \<Rightarrow> False
      | _ \<Rightarrow>
          (let url = pick_first img [lit ''url'', lit ''image_url'', lit ''src''] (JStr []);
               caption = pick_first img [lit ''title'', lit ''caption'', lit ''source''] (JStr [])
           in if truthy url then stringifiable url \<and> stringifiable caption else True))"

definition video_ok :: "json \<Rightarrow> bool" where
  "video_ok v =
     (if v = JNull then False
      else
        (let url = pick_first v [lit ''url'', lit ''video_url''] (JStr []);
             thumb = pick_first v [lit ''thumbnail_url'', lit ''thumbnail''] (JStr []);
             caption = pick_first v [lit ''title'', lit ''source''] (JStr [])
         in if truthy url
            then stringifiable url \<and> stringifiable thumb \<and> stringifiable caption
            else True))"

definition question_ok :: "json \<Rightarrow> bool" where
  "question_ok q = stringifiable q"

text \<open>
  One block of \<open>renderMetaBlocks\<close>: \<open>if (f && f.length) { ... f.forEach(callback) ... }\<close>.
  Only an array has \<open>forEach\<close>.
\<close>

definition block_ok :: "(json \<Rightarrow> bool) \<Rightarrow> json \<Rightarrow> bool" where
  "block_ok item_ok f =
     (if has_items f then (case f of JArr xs \<Rightarrow> list_all item_ok xs | _ \<Rightarrow> False) else True)"

text \<open>
  The usage block: its guard \<open>u && Object.keys(u).length\<close>, and the template literals
  of its lines, with \<open>cost = u.cost || {}\<close>.
\<close>

definition has_own_keys :: "json \<Rightarrow> bool" where
  "has_own_keys u =
     (case u of JObj kvs \<Rightarrow> kvs \<noteq> [] | JArr xs \<Rightarrow> xs \<noteq> [] | JStr s \<Rightarrow> s \<noteq> [] | _ \<Rightarrow> False)"

definition non_null_ok :: "json option \<Rightarrow> bool" where
  "non_null_ok v = (case v of None \<Rightarrow> True | Some x \<Rightarrow> if x \<noteq> JNull then stringifiable x else True)"

definition truthy_ok :: "json option \<Rightarrow> bool" where
  "truthy_ok v = (case v of None \<Rightarrow> True | Some x \<Rightarrow> if truthy x then stringifiable x else True)"

definition usage_ok :: "json \<Rightarrow> bool" where
  "usage_ok u =
     (if truthy u \<and> has_own_keys u
      then (let cost = pick_first u [lit ''cost''] (JObj [])
            in non_null_ok (js_get u (lit ''prompt_tokens''))
               \<and> non_null_ok (js_get u (lit ''completion_tokens''))
               \<and> non_null_ok (js_get u (lit ''total_tokens''))
               \<and> truthy_ok (js_get u (lit ''search_context_size''))
               \<and> non_null_ok (js_get cost (lit ''total_cost'')))
      else True)"

text \<open>\<open>renderMetaBlocks(meta)\<close>: \<open>None\<close> when it returns. The async note is a string.\<close>

definition renderMetaBlocks :: "msg_meta \<Rightarrow> error option" where
  "renderMetaBlocks mt =
     (if block_ok citation_ok (citations mt)
         \<and> block_ok search_result_ok (search_results mt)
         \<and> block_ok reasoning_step_ok (reasoning_steps mt)
         \<and> block_ok image_ok (images mt)
         \<and> block_ok video_ok (videos mt)
         \<and> block_ok question_ok (related_questions mt)
         \<and> usage_ok (usage mt)
      then None else Some TypeError)"

text \<open>
  \<open>renderAssistantHTML(content, meta)\<close>: when the citations are an array, each
  reference \<open>[n]\<close> in the sanitized HTML of the content, with \<open>n\<close> from 1 to the
  number of citations, is replaced by a link that converts citation \<open>n\<close> to a string.
  Which numbers occur in the HTML is decided by \<open>marked\<close> and \<open>DOMPurify\<close>; they
  are given as \<open>cited\<close>.
\<close>

definition renderAssistantHTML :: "nat list \<Rightarrow> msg_meta \<Rightarrow> error option" where
  "renderAssistantHTML cited mt =
     (case citations mt of
        JArr cs \<Rightarrow>
          if list_all (\<lambda>n. if 1 \<le> n \<and> n \<le> length cs then stringifiable (cs ! (n - 1)) else True) cited
          then None else Some TypeError
      | _ \<Rightarrow> None)"

text \<open>
  What the document shows when the redraw happens: either the element of the message is
  there, with the citation numbers that occur in the HTML of its content; or it is not
  (another thread is shown), and \<open>renderMessages\<close> redraws the thread that is shown,
  which returns or raises by that thread's own messages.
\<close>

datatype view = Shown "nat list" | Elsewhere "error option"

text \<open>\<open>updateMessageElement(thread, idx)\<close> on the accumulator: \<open>None\<close> when it returns.\<close>

definition updateMessageElement :: "view \<Rightarrow> msg \<Rightarrow> error option" where
  "updateMessageElement v m =
     (case v of
        Elsewhere r \<Rightarrow> r
      | Shown cited \<Rightarrow>
          if role m = lit ''assistant''
          then (case renderAssistantHTML cited (meta m) of
                  Some e \<Rightarrow> Some e
                | None \<Rightarrow> renderMetaBlocks (meta m))
          else None)"

section \<open>Async job poller\<close>

text \<open>
  A response as the poller reads it: \<open>ok\<close>, \<open>status\<close>, what \<open>text()\<close> yields and
  what \<open>json()\<close> yields (\<open>None\<close> when the body is not JSON, which raises a SyntaxError).
\<close>

record http_resp =
  resp_ok :: bool
  resp_status :: nat
  resp_text :: jstr
  resp_json :: "json option"

text \<open>
  One network step of an exchange, as the environment scripts it: the moment, if any, at
  which the exchange's abort signal is tripped during the step, what the network
  delivers to the request (a failure or a response), and what the document shows when
  the step redraws the message. The signal is tripped either before the step starts, or
  while the step waits (in \<open>sleep\<close> or for the pending \<open>fetch\<close>), or while the body
  of the response is read.
\<close>

datatype trip = Tripped_Before | Tripped_Waiting | Tripped_Reading

record net_step =
  trip :: "trip option"
  net :: "error + http_resp"
  view :: view

text \<open>
  \<open>await fetch(url, {..., signal})\<close>: rejects with an AbortError when the signal is
  aborted at the call or while the request is pending, whatever the network would
  deliver; otherwise it settles with what the network delivers.
\<close>

definition await_fetch :: "net_step \<Rightarrow> error + http_resp" where
  "await_fetch s =
     (if trip s = Some Tripped_Before \<or> trip s = Some Tripped_Waiting then Inl AbortError
      else net s)"

text \<open>\<open>await resp.text()\<close> and \<open>await resp.json()\<close> on a response fetched with the signal.\<close>

definition await_text :: "net_step \<Rightarrow> http_resp \<Rightarrow> error + jstr" where
  "await_text s r = (if trip s = Some Tripped_Reading then Inl AbortError else Inr (resp_text r))"

definition await_json :: "net_step \<Rightarrow> http_resp \<Rightarrow> error + json" where
  "await_json s r =
     (if trip s = Some Tripped_Reading then Inl AbortError
      else case resp_json r of None \<Rightarrow> Inl SyntaxError | Some v \<Rightarrow> Inr v)"

text \<open>
  How a run ends: it returns, it raises, or the script of responses is exhausted while the
  loop is still waiting for the next one.
\<close>

datatype outcome = Returned | Threw error | Pending

text \<open>
  The id of the job is converted to a string wherever the poller uses it:
  \<open>${id}\<close> in the notes and \<open>encodeURIComponent(id)\<close> in the URL. The first
  conversion is that of the note written after the submission; it either raises there or
  gives the text that every later conversion gives again. The poll loop is therefore
  given that text, \<open>jid\<close>.
\<close>

text \<open>The text \<open> \<bullet> id: ${id}\<close> that ends the status notes (the bullet is U+2022).\<close>

definition bullet_id :: "jstr \<Rightarrow> jstr" where
  "bullet_id jid = [32, 8226, 32] @ lit ''id: '' @ jid"

text \<open>\<open>${data.status || 'UNKNOWN'}\<close> inside the template literal.\<close>

definition status_text :: "json option \<Rightarrow> error + jstr" where
  "status_text st = (if truthy_opt st then template_str st else Inr (lit ''UNKNOWN''))"

text \<open>
  \<open>new Error(data.error_message || 'Deep research request failed')\<close>: the Error with
  the message converted to a string, or the TypeError of that conversion.
\<close>

definition failure_error :: "json option \<Rightarrow> error" where
  "failure_error em =
     (if truthy_opt em
      then (case template_str em of Inl e \<Rightarrow> e | Inr t \<Rightarrow> Error t)
      else Error (lit ''Deep research request failed''))"

text \<open>
  \<open>encodeURIComponent\<close> raises a URIError on a string that is not well-formed UTF-16:
  one with a high surrogate (D800 to DBFF) not followed by a low surrogate (DC00 to DFFF),
  or with a low surrogate not preceded by a high one.
\<close>

fun well_formed :: "jstr \<Rightarrow> bool" where
  "well_formed [] = True"
| "well_formed [a] = (\<not> (55296 \<le> a \<and> a \<le> 57343))"
| "well_formed (a # b # rest) =
     (if 55296 \<le> a \<and> a \<le> 56319 then 56320 \<le> b \<and> b \<le> 57343 \<and> well_formed rest
      else \<not> (56320 \<le> a \<and> a \<le> 57343) \<and> well_formed (b # rest))"

text \<open>
  \<open>updateMessageElement(thread, assistantIndex)\<close> as the last statement of a path: when
  it raises, the raise leaves the poller; when it returns, the path ends as \<open>k\<close> says.
\<close>

definition redraw :: "view \<Rightarrow> msg \<Rightarrow> outcome option \<Rightarrow> outcome option \<times> msg" where
  "redraw v m k =
     (case updateMessageElement v m of
        Some e \<Rightarrow> (Some (Threw e), m)
      | None \<Rightarrow> (k, m))"

text \<open>
  One iteration of the poll loop, from the check of \<open>signal.aborted\<close> to the end of the
  body. The URL of the request is built from \<open>encodeURIComponent(id)\<close> after the sleep
  and before \<open>fetch\<close> is called. The first component is \<open>None\<close> when the loop
  goes on; the second is the accumulator, also when the iteration raises.
\<close>

definition poll_iter :: "jstr \<Rightarrow> msg \<Rightarrow> net_step \<Rightarrow> outcome option \<times> msg" where
  "poll_iter jid m s =
     (if trip s = Some Tripped_Before then (Some (Threw AbortError), m)
      else if \<not> well_formed jid then (Some (Threw URIError), m)
      else
        (case await_fetch s of
           Inl e \<Rightarrow> (Some (Threw e), m)
         | Inr pollResp \<Rightarrow>
             if \<not> resp_ok pollResp then
               (case await_text s pollResp of
                  Inl e \<Rightarrow> (Some (Threw e), m)
                | Inr text \<Rightarrow>
                    (Some (Threw (Error (lit ''Async poll error ('' @ show_nat (resp_status pollResp)
                                         @ lit ''): '' @ text))), m))
             else
               (case await_json s pollResp of
                  Inl e \<Rightarrow> (Some (Threw e), m)
                | Inr data \<Rightarrow>
                    if data = JNull then (Some (Threw TypeError), m)
                    else
                      (let st = js_get data (lit ''status'')
                       in case status_text st of
                            Inl e \<Rightarrow> (Some (Threw e), m)
                          | Inr t \<Rightarrow>
                              (let m1 = m\<lparr>meta := (meta m)\<lparr>async :=
                                          Some (lit ''Status: '' @ t @ bullet_id jid)\<rparr>\<rparr>
                               in if st = Some (JStr (lit ''FAILED''))
                                  then (Some (Threw (failure_error (js_get data (lit ''error_message'')))), m1)
                                  else
                                    (case js_get data (lit ''response'') of
                                       None \<Rightarrow> redraw (view s) m1 None
                                     | Some response \<Rightarrow>
                                         if st = Some (JStr (lit ''COMPLETED'')) \<and> truthy response
                                         then
                                           (case applyPerplexityFinal m1 response of
                                              Inl e \<Rightarrow> (Some (Threw e), m1)
                                            | Inr m2 \<Rightarrow>
                                                redraw (view s)
                                                  (m2\<lparr>meta := (meta m2)\<lparr>async :=
                                                     Some (lit ''Completed'' @ bullet_id jid)\<rparr>\<rparr>)
                                                  (Some Returned))
                                         else redraw (view s) m1 None))))))"

text \<open>
  The \<open>while (true)\<close> loop over the scripted steps. The source sets no bound on the
  number of iterations; a finite script that ends before the job does leaves the run
  \<open>Pending\<close>.
\<close>

fun poll_loop :: "jstr \<Rightarrow> msg \<Rightarrow> net_step list \<Rightarrow> outcome \<times> msg" where
  "poll_loop jid m [] = (Pending, m)"
| "poll_loop jid m (s # rest) =
     (case poll_iter jid m s of
        (None, m') \<Rightarrow> poll_loop jid m' rest
      | (Some out, m') \<Rightarrow> (out, m'))"

text \<open>The placeholder content (the hourglass is U+23F3) and the note written after the submission (the ellipsis is U+2026).\<close>

definition running_text :: jstr where
  "running_text = 9203 # lit '' Deep research is running. This can take a while.''"

definition created_note :: "jstr \<Rightarrow> jstr" where
  "created_note jid = lit ''Request created: '' @ jid @ lit ''. Polling'' @ [8230]"

text \<open>
  The seeding of the accumulator after the submission:
  \<open>assistantMsg.meta.async = `Request created: ${id}. Polling...`\<close> and
  \<open>assistantMsg.content = assistantMsg.content || running_text\<close>.
\<close>

definition seed_msg :: "jstr \<Rightarrow> msg \<Rightarrow> msg" where
  "seed_msg jid m =
     (let m1 = m\<lparr>meta := (meta m)\<lparr>async := Some (created_note jid)\<rparr>\<rparr>
      in m1\<lparr>content := (if content m1 \<noteq> [] then content m1 else running_text)\<rparr>)"

text \<open>
  \<open>runDeepResearchAsync\<close> on the accumulator of the exchange: the submission, the
  seeding of the accumulator and its redraw, then the poll loop. The request bodies are
  not part of the model, since the responses are scripted. The second component is the
  accumulator at the end, also when the run raises.
\<close>

definition runDeepResearchAsync :: "msg \<Rightarrow> net_step \<Rightarrow> net_step list \<Rightarrow> outcome \<times> msg" where
  "runDeepResearchAsync m submit polls =
     (case await_fetch submit of
        Inl e \<Rightarrow> (Threw e, m)
      | Inr submitResp \<Rightarrow>
          if \<not> resp_ok submitResp then
            (case await_text submit submitResp of
               Inl e \<Rightarrow> (Threw e, m)
             | Inr text \<Rightarrow>
                 (Threw (Error (lit ''Async submit error ('' @ show_nat (resp_status submitResp)
                                @ lit ''): '' @ text)), m))
          else
            (case await_json submit submitResp of
               Inl e \<Rightarrow> (Threw e, m)
             | Inr job \<Rightarrow>
                 if job = JNull then (Threw TypeError, m)
                 else
                   (case template_str (js_get job (lit ''id'')) of
                      Inl e \<Rightarrow> (Threw e, m)
                    | Inr jid \<Rightarrow>
                        (let m1 = seed_msg jid m
                         in case updateMessageElement (view submit) m1 of
                              Some e \<Rightarrow> (Threw e, m1)
                            | None \<Rightarrow> poll_loop jid m1 polls))))"

text \<open>
  Scripted responses: a successful response with a JSON body, and a step that delivers it
  with the signal untouched, under a given view of the document.
\<close>

definition ok_json :: "json \<Rightarrow> http_resp" where
  "ok_json v = \<lparr>resp_ok = True, resp_status = 200, resp_text = [], resp_json = Some v\<rparr>"

definition deliver :: "view \<Rightarrow> json \<Rightarrow> net_step" where
  "deliver vw v = \<lparr>trip = None, net = Inr (ok_json v), view = vw\<rparr>"

definition status_only :: "string \<Rightarrow> json" where
  "status_only st = JObj [(lit ''status'', JStr (lit st))]"

definition completed_with :: "json \<Rightarrow> json" where
  "completed_with payload = JObj [(lit ''status'', JStr (lit ''COMPLETED'')), (lit ''response'', payload)]"

definition job_created :: "json \<Rightarrow> json" where
  "job_created jid = JObj [(lit ''id'', jid)]"

text \<open>The scripted status sequence SUBMITTED, POLLING, POLLING, COMPLETED with a final payload.\<close>

definition scripted_polls :: "view \<Rightarrow> json \<Rightarrow> net_step list" where
  "scripted_polls vw payload =
     [deliver vw (status_only ''SUBMITTED''), deliver vw (status_only ''POLLING''),
      deliver vw (status_only ''POLLING''), deliver vw (completed_with payload)]"

text \<open>
  A step in which the signal is tripped while the request is pending, and the response
  that arrives is the completed job.
\<close>

definition late_completion :: net_step where
  "late_completion =
     \<lparr>trip = Some Tripped_Waiting, net = Inr (ok_json (completed_with (text_payload ''x''))),
      view = Shown []\<rparr>"

text \<open>A payload whose citations are a string, which \<open>renderMetaBlocks\<close> cannot walk.\<close>

definition misshapen_payload :: json where
  "misshapen_payload = JObj [(lit ''citations'', JStr (lit ''u''))]"

section \<open>Payload builder\<close>

text \<open>
  \<open>state.settings\<close>, with the types that \<open>DEFAULT_SETTINGS\<close> and
  \<open>readSettingsFromUI\<close> give its fields: a string-or-null field is a \<open>jstr option\<close>
  (\<open>None\<close> is null), \<open>max_tokens\<close> is a number or null.
\<close>

record web_search_options =
  search_context_size :: "jstr option"
  search_type :: "jstr option"

record overrides =
  return_videos :: bool

record media_response =
  overrides :: overrides

record settings =
  model :: jstr
  search_mode :: jstr
  stream :: bool
  stream_mode :: jstr
  max_tokens :: "int option"
  reasoning_effort :: "jstr option"
  return_images :: bool
  return_related_questions :: bool
  enable_search_classifier :: bool
  disable_search :: bool
  safe_search :: bool
  web_search_options :: web_search_options
  search_domain_filter :: "jstr list"
  search_language_filter :: "jstr list"
  search_recency_filter :: "jstr option"
  image_domain_filter :: "jstr list"
  image_format_filter :: "jstr list"
  media_response :: media_response
  language_preference :: "jstr option"
  system_prompt :: jstr
  deep_research_async :: bool

text \<open>A message of the thread: its role and its content (a string, or an array of parts).\<close>

record thread_message =
  msg_role :: jstr
  msg_content :: json

text \<open>
  The forms of \<open>if (s.f) payload.f = ...\<close>, as the entries they add to the payload:
  a string that is neither null nor empty, a number that is not null, a flag that is set,
  a list that has a length.
\<close>

definition put_str :: "jstr \<Rightarrow> jstr option \<Rightarrow> (jstr \<times> json) list" where
  "put_str k v = (case v of None \<Rightarrow> [] | Some x \<Rightarrow> if x \<noteq> [] then [(k, JStr x)] else [])"

definition put_num :: "jstr \<Rightarrow> int option \<Rightarrow> (jstr \<times> json) list" where
  "put_num k v = (case v of None \<Rightarrow> [] | Some n \<Rightarrow> [(k, JNum n)])"

definition put_flag :: "jstr \<Rightarrow> bool \<Rightarrow> (jstr \<times> json) list" where
  "put_flag k b = (if b then [(k, JBool True)] else [])"

definition put_list :: "jstr \<Rightarrow> jstr list \<Rightarrow> (jstr \<times> json) list" where
  "put_list k xs = (if length xs \<noteq> 0 then [(k, JArr (map JStr xs))] else [])"

text \<open>The callback of \<open>(thread.messages || []).map\<close>.\<close>

definition clone_message :: "thread_message \<Rightarrow> error + json" where
  "clone_message m =
     (if msg_role m = lit ''system''
      then Inr (JObj [(lit ''role'', JStr (msg_role m)), (lit ''content'', msg_content m)])
      else if (case msg_content m of JArr _ \<Rightarrow> True | _ \<Rightarrow> False)
      then Inr (JObj [(lit ''role'', JStr (msg_role m)), (lit ''content'', msg_content m)])
      else
        (case (if truthy (msg_content m) then js_String (msg_content m) else Inr []) of
           Inl e \<Rightarrow> Inl e
         | Inr t \<Rightarrow> Inr (JObj [(lit ''role'', JStr (msg_role m)), (lit ''content'', JStr t)])))"

text \<open>
  \<open>buildPayload(thread)\<close>; the payload is the object with these entries, in order of
  assignment. Its one raise is the TypeError of \<open>String(m.content || '')\<close> on a message
  whose content cannot be converted.
\<close>

definition buildPayload :: "settings \<Rightarrow> thread_message list \<Rightarrow> error + json" where
  "buildPayload s thread_messages =
     (case all_or_raise (map clone_message thread_messages) of
        Inl e \<Rightarrow> Inl e
      | Inr msgs \<Rightarrow>
     (let messages =
            (if system_prompt s \<noteq> [] \<and> trim (system_prompt s) \<noteq> []
             then [JObj [(lit ''role'', JStr (lit ''system'')),
                         (lit ''content'', JStr (trim (system_prompt s)))]]
             else []) @ msgs;
          wso = put_str (lit ''search_context_size'') (search_context_size (web_search_options s))
                @ put_str (lit ''search_type'') (search_type (web_search_options s))
      in Inr (JObj
          ([(lit ''model'', JStr (model s)),
            (lit ''messages'', JArr messages),
            (lit ''search_mode'', JStr (search_mode s)),
            (lit ''stream'', JBool (stream s)),
            (lit ''stream_mode'', JStr (if stream_mode s \<noteq> [] then stream_mode s else lit ''full'')),
            (lit ''safe_search'', JBool (safe_search s))]
           @ put_num (lit ''max_tokens'') (max_tokens s)
           @ put_str (lit ''reasoning_effort'') (reasoning_effort s)
           @ put_str (lit ''language_preference'') (language_preference s)
           @ put_flag (lit ''return_images'') (return_images s)
           @ put_flag (lit ''return_related_questions'') (return_related_questions s)
           @ put_flag (lit ''enable_search_classifier'') (enable_search_classifier s)
           @ put_flag (lit ''disable_search'') (disable_search s)
           @ put_list (lit ''search_domain_filter'') (search_domain_filter s)
           @ put_list (lit ''search_language_filter'') (search_language_filter s)
           @ put_str (lit ''search_recency_filter'') (search_recency_filter s)
           @ put_list (lit ''image_domain_filter'') (image_domain_filter s)
           @ put_list (lit ''image_format_filter'') (image_format_filter s)
           @ (if length wso \<noteq> 0 then [(lit ''web_search_options'', JObj wso)] else [])
           @ (if return_videos (overrides (media_response s))
              then [(lit ''media_response'',
                     JObj [(lit ''overrides'', JObj [(lit ''return_videos'', JBool True)])])]
              else [])))))"

text \<open>Whether an object has a key, and a nested key.\<close>

definition has_key :: "json \<Rightarrow> jstr \<Rightarrow> bool" where
  "has_key obj k \<longleftrightarrow> js_get obj k \<noteq> None"

definition has_key2 :: "json \<Rightarrow> jstr \<Rightarrow> jstr \<Rightarrow> bool" where
  "has_key2 obj k k' \<longleftrightarrow> opt_get (js_get obj k) k' \<noteq> None"

text \<open>A string-or-null setting is active when it is neither null nor the empty string.\<close>

definition active_str :: "jstr option \<Rightarrow> bool" where
  "active_str v = (case v of None \<Rightarrow> False | Some x \<Rightarrow> x \<noteq> [])"

text \<open>\<open>DEFAULT_SETTINGS\<close>.\<close>

definition DEFAULT_SETTINGS :: settings where
  "DEFAULT_SETTINGS =
     \<lparr>model = lit ''sonar'', search_mode = lit ''web'', stream = True, stream_mode = lit ''full'',
      max_tokens = None, reasoning_effort = None, return_images = False,
      return_related_questions = False, enable_search_classifier = False,
      disable_search = False, safe_search = True,
      web_search_options = \<lparr>search_context_size = None, search_type = None\<rparr>,
      search_domain_filter = [], search_language_filter = [], search_recency_filter = None,
      image_domain_filter = [], image_format_filter = [],
      media_response = \<lparr>overrides = \<lparr>return_videos = False\<rparr>\<rparr>,
      language_preference = None, system_prompt = [], deep_research_async = True\<rparr>"

text \<open>The default settings with streaming and safe search switched off.\<close>

definition flags_off :: settings where
  "flags_off = DEFAULT_SETTINGS\<lparr>stream := False, safe_search := False\<rparr>"

section \<open>Server proxy\<close>

text \<open>
  An incoming request: \<open>req.header(name)\<close>, which is undefined for a header the request
  does not carry.
\<close>

record request =
  req_header :: "jstr \<Rightarrow> jstr option"

text \<open>\<open>getApiKey(req)\<close>.\<close>

definition getApiKey :: "request \<Rightarrow> jstr" where
  "getApiKey req =
     (let first = req_header req (lit ''x-pplx-key'');
          key = (case first of
                   None \<Rightarrow> req_header req (lit ''x-perplexity-key'')
                 | Some k \<Rightarrow> if k \<noteq> [] then Some k else req_header req (lit ''x-perplexity-key''))
      in case key of
           None \<Rightarrow> []
         | Some k \<Rightarrow> if k \<noteq> [] then trim k else [])"

text \<open>
  The upstream call the proxy makes (\<open>body\<close> is the value handed to
  \<open>JSON.stringify\<close>, or \<open>None\<close> for undefined), what the upstream answers (with
  \<open>up_body = None\<close> for a response without body), and what the proxy sends to its caller.
\<close>

record proxy_target =
  url :: jstr
  http_method :: jstr
  body :: "json option"

record fetch_call =
  call_url :: jstr
  call_method :: jstr
  call_headers :: "(jstr \<times> jstr) list"
  call_body :: "json option"

record upstream_resp =
  up_status :: nat
  up_header :: "jstr \<Rightarrow> jstr option"
  up_body :: "jstr option"

datatype sent_body = SentJson json | SentRaw jstr

record response =
  status :: nat
  headers :: "(jstr \<times> jstr) list"
  sent :: sent_body

text \<open>\<open>safeCopyHeaders(fromHeaders)\<close>.\<close>

definition allow :: "jstr list" where
  "allow = [lit ''content-type'', lit ''cache-control'', lit ''x-request-id'',
            lit ''x-ratelimit-limit'', lit ''x-ratelimit-remaining'', lit ''x-ratelimit-reset'']"

definition safeCopyHeaders :: "(jstr \<Rightarrow> jstr option) \<Rightarrow> (jstr \<times> jstr) list" where
  "safeCopyHeaders fromHeaders =
     concat (map (\<lambda>h. case fromHeaders h of
                         None \<Rightarrow> []
                       | Some v \<Rightarrow> if v \<noteq> [] then [(h, v)] else []) allow)"

text \<open>
  \<open>proxyPerplexity(req, res, {url, method, body})\<close>. \<open>upstream\<close> is the network: what
  \<open>fetch\<close> settles with for a call. The result is the list of upstream calls made and
  either the raise that leaves the function or the response sent. The body is relayed
  as it is, whether piped or buffered.
\<close>

definition proxyPerplexity ::
  "request \<Rightarrow> proxy_target \<Rightarrow> (fetch_call \<Rightarrow> error + upstream_resp) \<Rightarrow> fetch_call list \<times> (error + response)"
  where
  "proxyPerplexity req target upstream =
     (let apiKey = getApiKey req
      in if apiKey = []
         then ([], Inr \<lparr>status = 400, headers = [],
                        sent = SentJson (JObj [(lit ''error'',
                          JStr (lit ''Missing API key. Send it in the x-pplx-key header.''))])\<rparr>)
         else
           (let call = \<lparr>call_url = url target, call_method = http_method target,
                         call_headers = [(lit ''Authorization'', lit ''Bearer '' @ apiKey),
                                         (lit ''Content-Type'', lit ''application/json'')],
                         call_body = (if truthy_opt (body target) then body target else None)\<rparr>
            in case upstream call of
                 Inl e \<Rightarrow> ([call], Inl e)
               | Inr up \<Rightarrow>
                   ([call],
                    Inr \<lparr>status = up_status up, headers = safeCopyHeaders (up_header up),
                         sent = SentRaw (case up_body up of None \<Rightarrow> [] | Some b \<Rightarrow> b)\<rparr>)))"

text \<open>
  A request carries no credential when each of the two key headers is absent or consists
  of white space only.
\<close>

definition blank_header :: "request \<Rightarrow> jstr \<Rightarrow> bool" where
  "blank_header req name = (case req_header req name of None \<Rightarrow> True | Some v \<Rightarrow> trim v = [])"

definition no_credential :: "request \<Rightarrow> bool" where
  "no_credential req \<longleftrightarrow>
     blank_header req (lit ''x-pplx-key'') \<and> blank_header req (lit ''x-perplexity-key'')"

text \<open>Requests of the examples: one without any header, one whose key header is two spaces, one with a key.\<close>

definition bare_request :: request where
  "bare_request = \<lparr>req_header = (\<lambda>_. None)\<rparr>"

definition spaces_request :: request where
  "spaces_request = \<lparr>req_header = (\<lambda>n. if n = lit ''x-pplx-key'' then Some [32, 32] else None)\<rparr>"

definition keyed_request :: request where
  "keyed_request = \<lparr>req_header = (\<lambda>n. if n = lit ''x-pplx-key'' then Some (lit ''k1'') else None)\<rparr>"

definition chat_target :: proxy_target where
  "chat_target = \<lparr>url = lit ''https://api.perplexity.ai/chat/completions'',
                   http_method = lit ''POST'', body = Some (JObj [])\<rparr>"

definition no_content :: "fetch_call \<Rightarrow> error + upstream_resp" where
  "no_content call = Inr \<lparr>up_status = 204, up_header = (\<lambda>_. None), up_body = None\<rparr>"

section \<open>Properties\<close>

lemma lit_eq_iff [simp]: "lit s = lit t \<longleftrightarrow> s = t"
  unfolding lit_def by (rule inj_map_eq_map) (rule inj_of_char)

lemma lit_eq_Nil [simp]: "lit s = [] \<longleftrightarrow> s = []"
  by (simp add: lit_def)

subsection \<open>Conversion to a string\<close>

lemma all_or_raise_Inl: "all_or_raise rs = Inl e \<Longrightarrow> Inl e \<in> set rs"
  by (induction rs) (auto split: sum.splits)

lemma js_String_error: "js_String v = Inl e \<Longrightarrow> e = TypeError"
proof (induction v rule: js_String.induct)
  case (5 xs)
  then obtain x where "x \<in> set xs" and "x \<noteq> JNull" and "js_String x = Inl e"
    by (auto split: sum.splits if_splits dest!: all_or_raise_Inl)
  then show ?case using 5 by blast
qed (auto split: if_splits)

lemma not_stringifiable: "\<not> stringifiable v \<longleftrightarrow> js_String v = Inl TypeError"
  by (auto simp add: stringifiable_def split: sum.splits dest: js_String_error)

lemma stringifiable_Inr: "stringifiable v \<Longrightarrow> \<exists>t. js_String v = Inr t"
  by (simp add: stringifiable_def split: sum.splits)

lemma not_truthy_stringifiable: "\<not> truthy v \<Longrightarrow> stringifiable v"
  by (cases v) (simp_all add: stringifiable_def)

subsection \<open>Result merge engine\<close>




lemma assign_if_update:
  "assign_if v citations_update m = m\<lparr>meta := citations_update (replace_or_keep v) (meta m)\<rparr>"
  "assign_if v search_results_update m = m\<lparr>meta := search_results_update (replace_or_keep v) (meta m)\<rparr>"
  "assign_if v usage_update m = m\<lparr>meta := usage_update (replace_or_keep v) (meta m)\<rparr>"
  "assign_if v reasoning_steps_update m = m\<lparr>meta := reasoning_steps_update (replace_or_keep v) (meta m)\<rparr>"
  "assign_if v images_update m = m\<lparr>meta := images_update (replace_or_keep v) (meta m)\<rparr>"
  "assign_if v videos_update m = m\<lparr>meta := videos_update (replace_or_keep v) (meta m)\<rparr>"
  "assign_if v related_questions_update m = m\<lparr>meta := related_questions_update (replace_or_keep v) (meta m)\<rparr>"
  by (simp_all add: assign_if_def replace_or_keep_def split: option.splits)

lemma append_delta_Inr:
  "append_delta m c = Inr m1 \<Longrightarrow> meta m1 = meta m \<and> role m1 = role m"
  by (auto simp add: append_delta_def split: option.splits if_splits sum.splits)

lemma set_content_Inr:
  "set_content m c = Inr m1 \<Longrightarrow> meta m1 = meta m \<and> role m1 = role m"
  by (auto simp add: set_content_def split: option.splits if_splits sum.splits)

lemma chunk_unfold:
  assumes "chunk \<noteq> JNull"
  shows "applyPerplexityChunk m chunk =
     (case append_delta m (opt_get (chunk_delta chunk) (lit ''content'')) of
        Inl e \<Rightarrow> Inl e
      | Inr m1 \<Rightarrow> Inr (m1\<lparr>meta := (meta m)\<lparr>
       citations := replace_or_keep (js_get chunk (lit ''citations'')) (citations (meta m)),
       search_results := replace_or_keep (js_get chunk (lit ''search_results'')) (search_results (meta m)),
       usage := replace_or_keep (js_get chunk (lit ''usage'')) (usage (meta m)),
       reasoning_steps := replace_or_keep (opt_get (chunk_delta chunk) (lit ''reasoning_steps''))
          (replace_or_keep (js_get chunk (lit ''reasoning_steps'')) (reasoning_steps (meta m))),
       images := replace_or_keep (js_get chunk (lit ''images'')) (images (meta m)),
       videos := replace_or_keep (js_get chunk (lit ''videos'')) (videos (meta m)),
       related_questions := replace_or_keep (js_get chunk (lit ''related_questions''))
          (related_questions (meta m))\<rparr>\<rparr>))"
proof (cases "append_delta m (opt_get (chunk_delta chunk) (lit ''content''))")
  case (Inl e)
  then show ?thesis by (simp add: applyPerplexityChunk_def)
next
  case (Inr m1)
  then have "meta m1 = meta m" by (simp add: append_delta_Inr)
  then show ?thesis
    using assms Inr unfolding applyPerplexityChunk_def Let_def
    by (simp add: assign_if_update)
qed

lemma final_unfold:
  "applyPerplexityFinal m data =
     (case set_content m (final_content data) of
        Inl e \<Rightarrow> Inl e
      | Inr m1 \<Rightarrow> Inr (m1\<lparr>meta := (meta m)\<lparr>
       citations := replace_or_keep (opt_get (Some data) (lit ''citations'')) (citations (meta m)),
       search_results := replace_or_keep (opt_get (Some data) (lit ''search_results'')) (search_results (meta m)),
       usage := replace_or_keep (opt_get (Some data) (lit ''usage'')) (usage (meta m)),
       reasoning_steps := replace_or_keep (opt_get (Some data) (lit ''reasoning_steps'')) (reasoning_steps (meta m)),
       images := replace_or_keep (opt_get (Some data) (lit ''images'')) (images (meta m)),
       videos := replace_or_keep (opt_get (Some data) (lit ''videos'')) (videos (meta m)),
       related_questions := replace_or_keep (opt_get (Some data) (lit ''related_questions''))
          (related_questions (meta m))\<rparr>\<rparr>))"
proof (cases "set_content m (final_content data)")
  case (Inl e)
  then show ?thesis by (simp add: applyPerplexityFinal_def)
next
  case (Inr m1)
  then have "meta m1 = meta m" by (simp add: set_content_Inr)
  then show ?thesis
    using Inr unfolding applyPerplexityFinal_def Let_def
    by (simp add: assign_if_update)
qed

lemma append_delta_converts:
  "content_converts chunk \<Longrightarrow>
   \<exists>m1. append_delta m (opt_get (chunk_delta chunk) (lit ''content'')) = Inr m1 \<and> meta m1 = meta m"
  by (auto simp add: content_converts_def append_delta_def split: option.splits
      dest!: stringifiable_Inr)

lemma append_delta_raises:
  "\<not> content_converts chunk \<Longrightarrow>
   append_delta m (opt_get (chunk_delta chunk) (lit ''content'')) = Inl TypeError"
  by (auto simp add: content_converts_def append_delta_def not_stringifiable
      split: option.splits if_splits)

text \<open>
  Claim C3, as amended. For every event that is not null: when its content delta can be
  appended (it is absent, or not truthy, or converts to a string), the merge succeeds, and
  each of citations, search_results, usage, images, videos and related_questions ends as
  the event's top-level value when that value is truthy, and is left untouched otherwise
  (so also when the field is present with a null, false, zero or empty-string value).
  reasoning_steps ends as \<open>choices[0].delta.reasoning_steps\<close> when that is truthy,
  else as the top-level value when that is truthy, else untouched. The async note is
  untouched. When the content delta cannot be converted, the merge raises a TypeError
  (before any field is written).
\<close>
theorem chunk_side_channel_fields:
  assumes "chunk \<noteq> JNull"
  shows "if content_converts chunk
     then (\<exists>m'. applyPerplexityChunk m chunk = Inr m' \<and>
       citations (meta m') = replace_or_keep (js_get chunk (lit ''citations'')) (citations (meta m)) \<and>
       search_results (meta m') =
          replace_or_keep (js_get chunk (lit ''search_results'')) (search_results (meta m)) \<and>
       usage (meta m') = replace_or_keep (js_get chunk (lit ''usage'')) (usage (meta m)) \<and>
       reasoning_steps (meta m') =
          replace_or_keep (opt_get (chunk_delta chunk) (lit ''reasoning_steps''))
            (replace_or_keep (js_get chunk (lit ''reasoning_steps'')) (reasoning_steps (meta m))) \<and>
       images (meta m') = replace_or_keep (js_get chunk (lit ''images'')) (images (meta m)) \<and>
       videos (meta m') = replace_or_keep (js_get chunk (lit ''videos'')) (videos (meta m)) \<and>
       related_questions (meta m') =
          replace_or_keep (js_get chunk (lit ''related_questions'')) (related_questions (meta m)) \<and>
       async (meta m') = async (meta m))
     else applyPerplexityChunk m chunk = Inl TypeError"
proof (cases "content_converts chunk")
  case True
  then obtain m1 where "append_delta m (opt_get (chunk_delta chunk) (lit ''content'')) = Inr m1"
    using append_delta_converts by blast
  then show ?thesis
    using True by (simp add: chunk_unfold[OF assms])
next
  case False
  then show ?thesis
    by (simp add: chunk_unfold[OF assms] append_delta_raises)
qed

text \<open>
  Claim C3 as stated fails: the event below carries \<open>citations: null\<close> and a top-level
  \<open>reasoning_steps: ["a"]\<close>; after the merge the accumulator still holds its old
  citations, and its reasoning steps are the \<open>["b"]\<close> of the delta, not \<open>["a"]\<close>.
\<close>
theorem chunk_present_field_counterexample:
  "js_get override_event (lit ''citations'') = Some JNull \<and>
   js_get override_event (lit ''reasoning_steps'') = Some (JArr [JStr (lit ''a'')]) \<and>
   applyPerplexityChunk stale_msg override_event =
     Inr (stale_msg\<lparr>meta := (meta stale_msg)\<lparr>reasoning_steps := JArr [JStr (lit ''b'')]\<rparr>\<rparr>) \<and>
   citations (meta stale_msg) = JArr [JStr (lit ''old'')]"
  by (simp add: override_event_def stale_msg_def fresh_msg_def chunk_unfold chunk_delta_def
      replace_or_keep_def append_delta_def)

text \<open>
  Two events with different citation lists: only the second list is retained, and a field
  that neither event carries keeps its value. An event whose content delta is an object
  with a key \<open>toString\<close> raises, though it carries citations.
\<close>
theorem chunk_side_channel_fields_witness:
  "citations_event ''second'' \<noteq> JNull \<and> content_converts (citations_event ''second'') \<and>
   (\<exists>m1 m2. applyPerplexityChunk fresh_msg (citations_event ''first'') = Inr m1 \<and>
      citations (meta m1) = JArr [JStr (lit ''first'')] \<and>
      applyPerplexityChunk m1 (citations_event ''second'') = Inr m2 \<and>
      citations (meta m2) = JArr [JStr (lit ''second'')] \<and>
      usage (meta m2) = JObj []) \<and>
   unconvertible_event \<noteq> JNull \<and> \<not> content_converts unconvertible_event \<and>
   applyPerplexityChunk fresh_msg unconvertible_event = Inl TypeError"
proof -
  have ne: "citations_event u \<noteq> JNull" for u
    by (simp add: citations_event_def)
  have cc: "content_converts (citations_event u)" for u
    by (simp add: citations_event_def content_converts_def chunk_delta_def)
  have get: "js_get (citations_event u) (lit ''citations'') = Some (JArr [JStr (lit u)])"
       "js_get (citations_event u) (lit ''usage'') = None" for u
    by (simp_all add: citations_event_def)
  obtain m1 where m1: "applyPerplexityChunk fresh_msg (citations_event ''first'') = Inr m1"
      "citations (meta m1) = replace_or_keep (js_get (citations_event ''first'') (lit ''citations''))
         (citations (meta fresh_msg))"
      "usage (meta m1) = replace_or_keep (js_get (citations_event ''first'') (lit ''usage''))
         (usage (meta fresh_msg))"
    using chunk_side_channel_fields[OF ne, of "''first''" fresh_msg] cc by auto
  obtain m2 where m2: "applyPerplexityChunk m1 (citations_event ''second'') = Inr m2"
      "citations (meta m2) = replace_or_keep (js_get (citations_event ''second'') (lit ''citations''))
         (citations (meta m1))"
      "usage (meta m2) = replace_or_keep (js_get (citations_event ''second'') (lit ''usage''))
         (usage (meta m1))"
    using chunk_side_channel_fields[OF ne, of "''second''" m1] cc by auto
  have un: "unconvertible_event \<noteq> JNull"
    by (simp add: unconvertible_event_def)
  have nc: "\<not> content_converts unconvertible_event"
    by (simp add: unconvertible_event_def content_converts_def chunk_delta_def stringifiable_def)
  have r: "applyPerplexityChunk fresh_msg unconvertible_event = Inl TypeError"
    using chunk_side_channel_fields[OF un, of fresh_msg] nc by simp
  show ?thesis
    using ne cc m1 m2 un nc r by (simp add: get replace_or_keep_def fresh_msg_def)
qed

lemma map_of_rev_entries:
  "distinct ks \<Longrightarrow>
   map_of (rev (concat (map (\<lambda>k. case g k of None \<Rightarrow> [] | Some v \<Rightarrow> [(k, v)]) ks))) k =
     (if k \<in> set ks then g k else None)"
proof (induction ks)
  case Nil
  then show ?case by simp
next
  case (Cons x xs)
  then show ?case
    by (cases "g x") (auto simp: map_add_def split: option.splits)
qed

lemma distinct_side_fields: "distinct side_fields"
  by (simp add: side_fields_def)

lemma event_of_final_get:
  assumes "k \<in> set side_fields"
  shows "js_get (event_of_final data) k = opt_get (Some data) k"
proof -
  have "k \<noteq> lit ''choices''"
    using assms by (auto simp: side_fields_def)
  then show ?thesis
    using assms
    by (simp add: event_of_final_def map_of_rev_entries[OF distinct_side_fields] map_add_def
        split: option.splits)
qed

lemma event_of_final_delta:
  "chunk_delta (event_of_final data) =
     Some (JObj (case final_content data of None \<Rightarrow> [] | Some c \<Rightarrow> [(lit ''content'', c)]))"
proof -
  have "lit ''choices'' \<notin> set side_fields"
    by (simp add: side_fields_def)
  then show ?thesis
    by (simp add: chunk_delta_def event_of_final_def map_of_rev_entries[OF distinct_side_fields]
        map_add_def)
qed

lemma event_of_final_delta_get:
  "opt_get (chunk_delta (event_of_final data)) (lit ''content'') = final_content data"
  "opt_get (chunk_delta (event_of_final data)) (lit ''reasoning_steps'') = None"
  by (simp_all add: event_of_final_delta split: option.splits)

lemma side_fields_mem:
  "lit ''citations'' \<in> set side_fields" "lit ''search_results'' \<in> set side_fields"
  "lit ''usage'' \<in> set side_fields" "lit ''reasoning_steps'' \<in> set side_fields"
  "lit ''images'' \<in> set side_fields" "lit ''videos'' \<in> set side_fields"
  "lit ''related_questions'' \<in> set side_fields"
  by (simp_all add: side_fields_def)

lemma replace_or_keep_None [simp]: "replace_or_keep None old = old"
  by (simp add: replace_or_keep_def)

lemma event_of_final_chunk:
  assumes "append_delta m (final_content data) = set_content m (final_content data)"
  shows "applyPerplexityChunk m (event_of_final data) = applyPerplexityFinal m data"
proof -
  have ne: "event_of_final data \<noteq> JNull"
    by (simp add: event_of_final_def)
  show ?thesis
    unfolding chunk_unfold[OF ne] final_unfold
    by (simp add: assms event_of_final_delta_get event_of_final_get[OF side_fields_mem(1)]
        event_of_final_get[OF side_fields_mem(2)] event_of_final_get[OF side_fields_mem(3)]
        event_of_final_get[OF side_fields_mem(4)] event_of_final_get[OF side_fields_mem(5)]
        event_of_final_get[OF side_fields_mem(6)] event_of_final_get[OF side_fields_mem(7)]
        split: sum.splits)
qed

text \<open>
  Claim C4, as amended. When the accumulator's content is empty, or the payload has no
  content (absent or null), and the payload's content is neither \<open>false\<close> nor the
  number zero, the final-payload merge leaves the accumulator in the state that one
  incremental merge of the corresponding event leaves it in; where one raises, at the
  conversion of the content, so does the other, and neither has written then.
\<close>
theorem final_equals_single_chunk:
  assumes "content m = [] \<or> final_content data = None \<or> final_content data = Some JNull"
    and "final_content data \<noteq> Some (JBool False)"
    and "final_content data \<noteq> Some (JNum 0)"
  shows "applyPerplexityChunk m (event_of_final data) = applyPerplexityFinal m data"
proof -
  have "append_delta m (final_content data) = set_content m (final_content data)"
  proof (cases "final_content data")
    case None
    then show ?thesis by (simp add: append_delta_def set_content_def)
  next
    case (Some v)
    show ?thesis
    proof (cases v)
      case (JStr s)
      then show ?thesis
        using Some assms(1) by (cases "s = []") (auto simp add: append_delta_def set_content_def)
    qed (use Some assms in \<open>auto simp add: append_delta_def set_content_def split: sum.splits\<close>)
  qed
  then show ?thesis
    by (rule event_of_final_chunk)
qed

lemma text_payload_final:
  "applyPerplexityFinal m (text_payload t) =
     Inr (m\<lparr>content := lit t,
            meta := (meta m)\<lparr>citations := JArr [JStr (lit ''u'')]\<rparr>\<rparr>)"
  by (simp add: final_unfold final_content_def set_content_def text_payload_def replace_or_keep_def)

lemma text_payload_content: "final_content (text_payload t) = Some (JStr (lit t))"
  by (simp add: final_content_def text_payload_def)

lemma text_payload_chunk:
  "applyPerplexityChunk m (event_of_final (text_payload t)) =
     Inr (m\<lparr>content := content m @ lit t,
            meta := (meta m)\<lparr>citations := JArr [JStr (lit ''u'')]\<rparr>\<rparr>)"
proof -
  have ne: "event_of_final (text_payload t) \<noteq> JNull"
    by (simp add: event_of_final_def)
  have g: "opt_get (Some (text_payload u)) (lit ''citations'') = Some (JArr [JStr (lit ''u'')])"
    "opt_get (Some (text_payload u)) (lit ''search_results'') = None"
    "opt_get (Some (text_payload u)) (lit ''usage'') = None"
    "opt_get (Some (text_payload u)) (lit ''reasoning_steps'') = None"
    "opt_get (Some (text_payload u)) (lit ''images'') = None"
    "opt_get (Some (text_payload u)) (lit ''videos'') = None"
    "opt_get (Some (text_payload u)) (lit ''related_questions'') = None" for u
    by (simp_all add: text_payload_def)
  show ?thesis
    unfolding chunk_unfold[OF ne]
    by (simp add: event_of_final_delta_get text_payload_content append_delta_def g
          event_of_final_get[OF side_fields_mem(1)]
          event_of_final_get[OF side_fields_mem(2)] event_of_final_get[OF side_fields_mem(3)]
          event_of_final_get[OF side_fields_mem(4)] event_of_final_get[OF side_fields_mem(5)]
          event_of_final_get[OF side_fields_mem(6)] event_of_final_get[OF side_fields_mem(7)]
          replace_or_keep_def)
qed

text \<open>
  Claim C4 as stated fails on an accumulator that already has content: the final merge
  replaces the content \<open>abc\<close> by \<open>x\<close>, the incremental merge appends and gives
  \<open>abcx\<close>.
\<close>
theorem final_vs_chunk_counterexample:
  "map_sum id content (applyPerplexityFinal stale_msg (text_payload ''x'')) = Inr (lit ''x'') \<and>
   map_sum id content (applyPerplexityChunk stale_msg (event_of_final (text_payload ''x'')))
     = Inr (lit ''abcx'') \<and>
   applyPerplexityChunk stale_msg (event_of_final (text_payload ''x''))
     \<noteq> applyPerplexityFinal stale_msg (text_payload ''x'')"
proof -
  have c: "content stale_msg = lit ''abc''"
    by (simp add: stale_msg_def)
  have 1: "map_sum id content (applyPerplexityFinal stale_msg (text_payload ''x'')) = Inr (lit ''x'')"
    by (simp add: text_payload_final)
  have 2: "map_sum id content (applyPerplexityChunk stale_msg (event_of_final (text_payload ''x'')))
     = Inr (lit ''abcx'')"
    by (simp add: text_payload_chunk c lit_def)
  have 3: "applyPerplexityChunk stale_msg (event_of_final (text_payload ''x''))
     \<noteq> applyPerplexityFinal stale_msg (text_payload ''x'')"
  proof
    assume "applyPerplexityChunk stale_msg (event_of_final (text_payload ''x''))
      = applyPerplexityFinal stale_msg (text_payload ''x'')"
    then have "map_sum id content (applyPerplexityChunk stale_msg (event_of_final (text_payload ''x'')))
      = map_sum id content (applyPerplexityFinal stale_msg (text_payload ''x''))"
      by simp
    then show False unfolding 1 2 by simp
  qed
  show ?thesis using 1 2 3 by simp
qed

text \<open>On the fresh accumulator both merges of a payload with text \<open>x\<close> and one citation agree.\<close>
theorem final_equals_single_chunk_witness:
  "(content fresh_msg = [] \<or> final_content (text_payload ''x'') = None
      \<or> final_content (text_payload ''x'') = Some JNull) \<and>
   final_content (text_payload ''x'') \<noteq> Some (JBool False) \<and>
   final_content (text_payload ''x'') \<noteq> Some (JNum 0) \<and>
   applyPerplexityChunk fresh_msg (event_of_final (text_payload ''x''))
     = Inr (fresh_msg\<lparr>content := lit ''x'',
              meta := (meta fresh_msg)\<lparr>citations := JArr [JStr (lit ''u'')]\<rparr>\<rparr>)"
proof -
  have c: "content fresh_msg = []"
    by (simp add: fresh_msg_def)
  show ?thesis
    using final_equals_single_chunk[of fresh_msg "text_payload ''x''"] text_payload_content c
      text_payload_final[of fresh_msg "''x''"]
    by simp
qed

subsection \<open>Event decoder\<close>

lemma split_acc_ne [simp]: "split_acc cur s \<noteq> []"
  by (induction cur s rule: split_acc.induct) auto

lemma split_acc_cur: "split_acc cur s = (cur @ hd (split_acc [] s)) # tl (split_acc [] s)"
proof (induction s arbitrary: cur rule: induct_list012)
  case (3 a b rest)
  show ?case
  proof (cases "a = 10 \<and> b = 10")
    case True
    then show ?thesis by simp
  next
    case False
    then show ?thesis
      using 3(2)[of "cur @ [a]"] 3(2)[of "[a]"] by simp
  qed
qed simp_all

lemma split_blank_simps:
  "split_blank [] = [[]]"
  "split_blank [a] = [[a]]"
  "split_blank (10 # 10 # rest) = [] # split_blank rest"
  "\<not> (a = 10 \<and> b = 10) \<Longrightarrow>
     split_blank (a # b # rest) = (a # hd (split_blank (b # rest))) # tl (split_blank (b # rest))"
  unfolding split_blank_def
  using split_acc_cur[of "[a]" "b # rest"] by simp_all

lemma split_blank_ne [simp]: "split_blank s \<noteq> []"
  by (simp add: split_blank_def)

text \<open>A text without separator is its own single piece.\<close>

lemma split_blank_single: "split_blank s = [p] \<Longrightarrow> p = s"
proof (induction s arbitrary: p rule: induct_list012)
  case (3 a b rest)
  have ns: "\<not> (a = 10 \<and> b = 10)"
    using 3(3) by (auto simp: split_blank_simps)
  from 3(3) have "tl (split_blank (b # rest)) = []" and "p = a # hd (split_blank (b # rest))"
    by (simp_all add: split_blank_simps(4)[OF ns])
  moreover then have "split_blank (b # rest) = [hd (split_blank (b # rest))]"
    by (metis list.collapse split_blank_ne)
  ultimately show ?case using 3(2) by auto
qed (simp_all add: split_blank_simps)

lemma split_blank_append:
  "split_blank (s1 @ s2) = butlast (split_blank s1) @ split_blank (last (split_blank s1) @ s2)"
proof (induction s1 rule: induct_list012)
  case 1
  then show ?case by (simp add: split_blank_simps)
next
  case (2 a)
  then show ?case by (simp add: split_blank_simps)
next
  case (3 a b rest)
  show ?case
  proof (cases "a = 10 \<and> b = 10")
    case True
    then show ?thesis using 3(1) by (simp add: split_blank_simps)
  next
    case False
    let ?Y = "split_blank (b # rest)"
    have L: "split_blank ((a # b # rest) @ s2) = (a # hd (split_blank ((b # rest) @ s2))) # tl (split_blank ((b # rest) @ s2))"
      using False by (simp add: split_blank_simps)
    have R: "split_blank (a # b # rest) = (a # hd ?Y) # tl ?Y"
      using False by (simp add: split_blank_simps)
    show ?thesis
    proof (cases "tl ?Y = []")
      case True
      then have "?Y = [hd ?Y]" by (metis list.collapse split_blank_ne)
      then have "hd ?Y = b # rest" by (rule split_blank_single)
      then show ?thesis unfolding R using True by simp
    next
      case F2: False
      then obtain y ys where Y: "?Y = y # ys" "ys \<noteq> []"
        by (metis list.collapse split_blank_ne)
      show ?thesis unfolding L R 3(2) using Y by simp
    qed
  qed
qed

lemma split_blank_last_single: "split_blank (last (split_blank s)) = [last (split_blank s)]"
proof (induction s rule: induct_list012)
  case (3 a b rest)
  show ?case
  proof (cases "a = 10 \<and> b = 10")
    case True
    then show ?thesis using 3(1) by (simp add: split_blank_simps)
  next
    case False
    let ?Y = "split_blank (b # rest)"
    have R: "split_blank (a # b # rest) = (a # hd ?Y) # tl ?Y"
      using False by (simp add: split_blank_simps)
    show ?thesis
    proof (cases "tl ?Y = []")
      case True
      then have "?Y = [hd ?Y]" by (metis list.collapse split_blank_ne)
      then have "hd ?Y = b # rest" by (rule split_blank_single)
      then show ?thesis unfolding R using True R by simp
    next
      case F2: False
      then obtain y ys where Y: "?Y = y # ys" "ys \<noteq> []"
        by (metis list.collapse split_blank_ne)
      show ?thesis unfolding R using Y 3(2) by simp
    qed
  qed
qed (simp_all add: split_blank_simps)

lemma event_loop_append:
  "event_loop parse (es1 @ es2) =
     (case event_loop parse es1 of
        (o1, f1) \<Rightarrow> if f1 then (o1, True)
                   else (case event_loop parse es2 of (o2, f2) \<Rightarrow> (o1 @ o2, f2)))"
  by (induction es1) (auto split: prod.splits)

lemma read_loop_whole:
  "split_blank buf = [buf] \<Longrightarrow>
   read_loop dec parse d buf chunks =
     fst (event_loop parse (butlast (split_blank (buf @ decode_all dec d chunks))))"
proof (induction chunks arbitrary: d buf)
  case Nil
  then show ?case by simp
next
  case (Cons c cs)
  obtain t d' where dc: "dec d c = (t, d')" by (cases "dec d c")
  let ?ev = "split_blank (buf @ t)"
  let ?r = "last ?ev"
  obtain o1 f1 where e1: "event_loop parse (butlast ?ev) = (o1, f1)"
    by (cases "event_loop parse (butlast ?ev)")
  have IH: "read_loop dec parse d' ?r cs =
      fst (event_loop parse (butlast (split_blank (?r @ decode_all dec d' cs))))"
    by (rule Cons.IH) (rule split_blank_last_single)
  have sp: "split_blank (buf @ decode_all dec d (c # cs)) =
      butlast ?ev @ split_blank (?r @ decode_all dec d' cs)"
    using split_blank_append[of "buf @ t" "decode_all dec d' cs"] dc by simp
  have bl: "butlast (split_blank (buf @ decode_all dec d (c # cs))) =
      butlast ?ev @ butlast (split_blank (?r @ decode_all dec d' cs))"
    unfolding sp by (simp add: butlast_append)
  show ?case
    unfolding bl event_loop_append using dc e1 IH
    by (simp add: Let_def split: prod.splits)
qed

lemma consumeSSE_whole:
  "consumeSSE dec d0 parse chunks =
     fst (event_loop parse (butlast (split_blank (decode_all dec d0 chunks))))"
  unfolding consumeSSE_def
  using read_loop_whole[of "[]" dec parse d0 chunks] by (simp add: split_blank_simps)


text \<open>
  Claim C1. For every byte stream and every split of it into two chunks \<open>a\<close> and
  \<open>b\<close>, feeding the two chunks in order emits exactly the events, in the same order,
  that feeding \<open>a @ b\<close> as one chunk emits. The text decoder is any streaming decoder.
\<close>
theorem consumeSSE_two_chunks:
  assumes "stream_law dec"
  shows "consumeSSE dec d0 parse [a, b] = consumeSSE dec d0 parse [a @ b]"
proof -
  have "decode_all dec d0 [a, b] = decode_all dec d0 [a @ b]"
    using assms unfolding stream_law_def
    by (simp split: prod.splits)
  then show ?thesis by (simp add: consumeSSE_whole)
qed

lemma stream_law_ascii: "stream_law ascii_decode"
  by (simp add: stream_law_def ascii_decode_def)

lemmas decoder_eval =
  consumeSSE_def ascii_decode_def stream_head_def stream_tail_def stream_tail_open_def lit_def
  split_blank_def event_lines_def split_nl_def trim_def js_space_def parse_two_def
  content_event_def citations_event_def

lemma whole_stream_events:
  "consumeSSE ascii_decode () parse_two [stream_head @ stream_tail] =
     [content_event (lit ''Hi''), citations_event ''u'']"
  by (simp add: decoder_eval)

text \<open>
  The two-event stream cut inside the blank line that separates its events: both events
  are emitted, once each.
\<close>
theorem consumeSSE_two_chunks_witness:
  "stream_law ascii_decode \<and>
   consumeSSE ascii_decode () parse_two [stream_head, stream_tail] =
     [content_event (lit ''Hi''), citations_event ''u'']"
  using consumeSSE_two_chunks[OF stream_law_ascii, of "()" parse_two stream_head stream_tail]
    stream_law_ascii whole_stream_events by simp

text \<open>The same stream cut at any offset gives the same two events.\<close>

lemma two_events_every_offset:
  "consumeSSE ascii_decode () parse_two
     [take n (stream_head @ stream_tail), drop n (stream_head @ stream_tail)] =
   [content_event (lit ''Hi''), citations_event ''u'']"
proof -
  have "decode_all ascii_decode () [take n s, drop n s] = decode_all ascii_decode () [s]" for s
    by (simp add: ascii_decode_def)
  then have "consumeSSE ascii_decode () parse_two [take n s, drop n s] =
      consumeSSE ascii_decode () parse_two [s]" for s
    unfolding consumeSSE_whole by (rule arg_cong)
  then have "consumeSSE ascii_decode () parse_two
      [take n (stream_head @ stream_tail), drop n (stream_head @ stream_tail)] =
      consumeSSE ascii_decode () parse_two [stream_head @ stream_tail]" .
  also note whole_stream_events
  finally show ?thesis .
qed

text \<open>
  Claim C9. The raw events of a stream are the pieces of its text between blank-line
  separators. Whatever the last piece is (the text still in the buffer when the reader
  reports done), the decoder emits exactly what the pieces before it give: the pending
  text is dropped, and an event is emitted only once the separator after it has been seen.
\<close>
theorem consumeSSE_drops_pending:
  assumes "split_blank (decode_all dec d0 chunks) = complete @ [pending]"
  shows "consumeSSE dec d0 parse chunks = fst (event_loop parse complete)"
  using assms by (simp add: consumeSSE_whole)

lemma open_stream_split:
  "split_blank (decode_all ascii_decode () [stream_head, stream_tail_open]) =
     [butlast stream_head] @ [tl stream_tail_open]"
  by (simp add: decoder_eval)

lemma open_stream_first:
  "fst (event_loop parse_two [butlast stream_head]) = [content_event (lit ''Hi'')]"
  by (simp add: decoder_eval)

lemma open_stream_pending:
  "fst (line_loop parse_two (event_lines (tl stream_tail_open))) = [citations_event ''u'']"
  by (simp add: decoder_eval)

text \<open>
  A stream that ends after the data line of its second event, without the blank line:
  the pending text holds a complete data line, which alone would give an event, and only
  the first event is emitted.
\<close>
theorem consumeSSE_drops_pending_witness:
  "split_blank (decode_all ascii_decode () [stream_head, stream_tail_open]) =
     [butlast stream_head] @ [tl stream_tail_open] \<and>
   fst (line_loop parse_two (event_lines (tl stream_tail_open))) = [citations_event ''u''] \<and>
   consumeSSE ascii_decode () parse_two [stream_head, stream_tail_open] =
     [content_event (lit ''Hi'')]"
  using consumeSSE_drops_pending[OF open_stream_split, of parse_two]
    open_stream_split open_stream_first open_stream_pending by simp

subsection \<open>Redrawing the message\<close>

text \<open>The redraw reads the role and the seven side-channel fields; the note and the content are strings.\<close>

lemma redraw_same_fields:
  assumes "role m' = role m" and "citations (meta m') = citations (meta m)"
    and "search_results (meta m') = search_results (meta m)" and "usage (meta m') = usage (meta m)"
    and "reasoning_steps (meta m') = reasoning_steps (meta m)" and "images (meta m') = images (meta m)"
    and "videos (meta m') = videos (meta m)"
    and "related_questions (meta m') = related_questions (meta m)"
  shows "updateMessageElement v m' = updateMessageElement v m"
proof -
  have "renderMetaBlocks (meta m') = renderMetaBlocks (meta m)"
    using assms by (simp add: renderMetaBlocks_def)
  moreover have "renderAssistantHTML cited (meta m') = renderAssistantHTML cited (meta m)" for cited
    using assms by (simp add: renderAssistantHTML_def)
  ultimately show ?thesis
    using assms(1) by (cases v) (simp_all add: updateMessageElement_def split: option.splits)
qed

lemma redraw_note [simp]:
  "updateMessageElement v (m\<lparr>meta := (meta m)\<lparr>async := a\<rparr>\<rparr>) = updateMessageElement v m"
  "updateMessageElement v (m\<lparr>content := c\<rparr>) = updateMessageElement v m"
  "updateMessageElement v (m\<lparr>content := c, meta := (meta m)\<lparr>async := a\<rparr>\<rparr>) = updateMessageElement v m"
  by (rule redraw_same_fields; simp)+

lemma redraw_fresh: "updateMessageElement (Shown cited) fresh_msg = None"
  by (simp add: updateMessageElement_def renderMetaBlocks_def renderAssistantHTML_def fresh_msg_def
      block_ok_def has_items_def usage_ok_def has_own_keys_def list_all_iff)

subsection \<open>Async job poller\<close>

lemma poll_iter_tripped:
  assumes "trip s \<noteq> None"
  shows "\<exists>e. poll_iter jid m s = (Some (Threw e), m) \<and>
           (e = AbortError \<or> e = URIError \<or> net s = Inl e)"
proof -
  obtain t where t: "trip s = Some t" using assms by auto
  show ?thesis
    by (cases t)
       (auto simp add: t poll_iter_def await_fetch_def await_text_def await_json_def
          split: sum.splits option.splits)
qed

lemma redraw_not_pending: "k \<noteq> Some Pending \<Longrightarrow> fst (redraw v m k) \<noteq> Some Pending"
  by (simp add: redraw_def split: option.splits)

lemma poll_iter_not_pending: "fst (poll_iter jid m s) \<noteq> Some Pending"
  by (auto simp add: poll_iter_def Let_def redraw_not_pending
      split: sum.splits option.splits if_splits)

lemma poll_loop_append:
  "poll_loop jid m (xs @ ys) =
     (case poll_loop jid m xs of (Pending, m') \<Rightarrow> poll_loop jid m' ys | (out, m') \<Rightarrow> (out, m'))"
proof (induction xs arbitrary: m)
  case Nil
  then show ?case by simp
next
  case (Cons x xs)
  obtain r m' where it: "poll_iter jid m x = (r, m')" by (cases "poll_iter jid m x")
  show ?case
  proof (cases r)
    case None
    then show ?thesis using it Cons.IH by simp
  next
    case (Some out)
    then have "out \<noteq> Pending" using poll_iter_not_pending[of jid m x] it by auto
    then show ?thesis using it Some by (cases out) simp_all
  qed
qed

text \<open>
  Claim C6. Let the poll loop have run the iterations \<open>before\<close> and be still going,
  with accumulator \<open>m'\<close>, and let the signal be tripped at any moment of the next
  iteration: before its check of the signal, while it waits, or while it reads the
  response. Then the run ends in a raise and the accumulator is \<open>m'\<close> still, whatever
  the network delivers to the pending request and whatever would follow. The raise is the
  AbortError, unless the request had failed by itself before the signal was tripped: with
  the URIError of an id that cannot be encoded, or with the failure of the network.
\<close>
theorem poll_loop_cancelled:
  assumes "poll_loop jid m before = (Pending, m')" and "trip s \<noteq> None"
  shows "\<exists>e. poll_loop jid m (before @ s # rest) = (Threw e, m') \<and>
           (e = AbortError \<or> e = URIError \<or> net s = Inl e)"
  using assms(1) poll_iter_tripped[OF assms(2), of jid m'] by (auto simp add: poll_loop_append)

lemma deliver_sel [simp]:
  "trip (deliver vw data) = None" "net (deliver vw data) = Inr (ok_json data)"
  "view (deliver vw data) = vw"
  "resp_ok (ok_json data)" "resp_json (ok_json data) = Some data"
  by (simp_all add: deliver_def ok_json_def)

lemma poll_iter_delivered:
  assumes "trip s = None" and "net s = Inr r" and "resp_ok r" and "resp_json r = Some data"
    and "data \<noteq> JNull" and "well_formed jid"
  shows "poll_iter jid m s =
     (let st = js_get data (lit ''status'')
      in case status_text st of
           Inl e \<Rightarrow> (Some (Threw e), m)
         | Inr t \<Rightarrow>
             (let m1 = m\<lparr>meta := (meta m)\<lparr>async := Some (lit ''Status: '' @ t @ bullet_id jid)\<rparr>\<rparr>
              in if st = Some (JStr (lit ''FAILED''))
                 then (Some (Threw (failure_error (js_get data (lit ''error_message'')))), m1)
                 else
                   (case js_get data (lit ''response'') of
                      None \<Rightarrow> redraw (view s) m1 None
                    | Some response \<Rightarrow>
                        if st = Some (JStr (lit ''COMPLETED'')) \<and> truthy response
                        then
                          (case applyPerplexityFinal m1 response of
                             Inl e \<Rightarrow> (Some (Threw e), m1)
                           | Inr m2 \<Rightarrow>
                               redraw (view s)
                                 (m2\<lparr>meta := (meta m2)\<lparr>async :=
                                    Some (lit ''Completed'' @ bullet_id jid)\<rparr>\<rparr>)
                                 (Some Returned))
                        else redraw (view s) m1 None)))"
  using assms
  by (simp add: poll_iter_def await_fetch_def await_json_def)

lemma poll_iter_status_only:
  "st \<noteq> ''FAILED'' \<Longrightarrow> st \<noteq> [] \<Longrightarrow> well_formed jid \<Longrightarrow>
   poll_iter jid m (deliver vw (status_only st)) =
     redraw vw (m\<lparr>meta := (meta m)\<lparr>async := Some (lit ''Status: '' @ lit st @ bullet_id jid)\<rparr>\<rparr>) None"
  by (subst poll_iter_delivered[where r = "ok_json (status_only st)" and data = "status_only st"])
     (simp_all add: status_only_def status_text_def)

lemma final_on_seeded:
  assumes "applyPerplexityFinal m payload = Inr mf"
  shows "applyPerplexityFinal (m\<lparr>content := c, meta := (meta m)\<lparr>async := a\<rparr>\<rparr>) payload =
     Inr (mf\<lparr>content := (if final_content payload = None \<or> final_content payload = Some JNull then c
                          else content mf),
             meta := (meta mf)\<lparr>async := a\<rparr>\<rparr>)"
  using assms
  by (auto simp add: final_unfold set_content_def split: option.splits sum.splits if_splits)

lemma final_content_kept:
  "final_content payload = None \<or> final_content payload = Some JNull \<Longrightarrow>
   applyPerplexityFinal m payload = Inr mf \<Longrightarrow> content mf = content m"
  by (auto simp add: final_unfold set_content_def)

lemma final_same_fields:
  assumes "applyPerplexityFinal m payload = Inr mf"
  shows "role mf = role m"
  using assms
  by (auto simp add: final_unfold set_content_def split: option.splits sum.splits if_splits)

lemma poll_iter_completed_with:
  assumes "truthy payload" and "well_formed jid" and "applyPerplexityFinal m payload = Inr mf"
  shows "poll_iter jid (m\<lparr>content := c, meta := (meta m)\<lparr>async := a\<rparr>\<rparr>)
      (deliver vw (completed_with payload)) =
     redraw vw
       (mf\<lparr>content := (if final_content payload = None \<or> final_content payload = Some JNull then c
                         else content mf),
           meta := (meta mf)\<lparr>async := Some (lit ''Completed'' @ bullet_id jid)\<rparr>\<rparr>)
       (Some Returned)"
proof -
  have "applyPerplexityFinal
      (m\<lparr>content := c, meta := (meta m)\<lparr>async := Some (lit ''Status: COMPLETED'' @ bullet_id jid)\<rparr>\<rparr>) payload =
     Inr (mf\<lparr>content := (if final_content payload = None \<or> final_content payload = Some JNull then c
                          else content mf),
             meta := (meta mf)\<lparr>async := Some (lit ''Status: COMPLETED'' @ bullet_id jid)\<rparr>\<rparr>)"
    by (rule final_on_seeded[OF assms(3)])
  then show ?thesis
    using assms(1,2)
    by (subst poll_iter_delivered[where r = "ok_json (completed_with payload)"
          and data = "completed_with payload"])
       (simp_all add: completed_with_def status_text_def lit_def)
qed

lemma seed_msg_eq:
  "seed_msg jid m =
     m\<lparr>content := (if content m \<noteq> [] then content m else running_text),
       meta := (meta m)\<lparr>async := Some (created_note jid)\<rparr>\<rparr>"
  by (simp add: seed_msg_def Let_def)

lemma redraw_seed [simp]: "updateMessageElement v (seed_msg jid m) = updateMessageElement v m"
  by (rule redraw_same_fields) (simp_all add: seed_msg_eq)

lemma run_after_submission:
  assumes "js_String jidv = Inr jid"
  shows "runDeepResearchAsync m (deliver vw (job_created jidv)) polls =
     (case updateMessageElement vw m of
        Some e \<Rightarrow> (Threw e, seed_msg jid m)
      | None \<Rightarrow> poll_loop jid (seed_msg jid m) polls)"
  using assms
  by (simp add: runDeepResearchAsync_def await_fetch_def await_json_def job_created_def Let_def)

lemma final_fields_on_seeded:
  assumes "applyPerplexityFinal m payload = Inr mf"
  shows "updateMessageElement v
      (mf\<lparr>content := c, meta := (meta mf)\<lparr>async := a\<rparr>\<rparr>) = updateMessageElement v mf"
  by (rule redraw_same_fields) simp_all

lemma scripted_run_result:
  assumes "truthy payload" and "js_String jidv = Inr jid" and "well_formed jid"
    and "applyPerplexityFinal m payload = Inr mf"
    and "updateMessageElement vw m = None" and "updateMessageElement vw mf = None"
  shows "runDeepResearchAsync m (deliver vw (job_created jidv)) (scripted_polls vw payload) =
     (Returned,
      mf\<lparr>content := (if content m = [] \<and> (final_content payload = None \<or> final_content payload = Some JNull)
                        then running_text else content mf),
         meta := (meta mf)\<lparr>async := Some (lit ''Completed'' @ bullet_id jid)\<rparr>\<rparr>)"
proof -
  let ?c = "if content m \<noteq> [] then content m else running_text"
  have polling: "poll_iter jid (m\<lparr>content := ?c, meta := (meta m)\<lparr>async := a\<rparr>\<rparr>)
        (deliver vw (status_only st)) =
      (None, m\<lparr>content := ?c, meta := (meta m)\<lparr>async := Some (lit ''Status: '' @ lit st @ bullet_id jid)\<rparr>\<rparr>)"
    if "st \<noteq> ''FAILED''" and "st \<noteq> []" for a st
    using that assms(3,5) by (simp add: poll_iter_status_only redraw_def)
  have last: "poll_iter jid (m\<lparr>content := ?c, meta := (meta m)\<lparr>async := a\<rparr>\<rparr>)
        (deliver vw (completed_with payload)) =
      (Some Returned,
       mf\<lparr>content := (if final_content payload = None \<or> final_content payload = Some JNull then ?c
                         else content mf),
          meta := (meta mf)\<lparr>async := Some (lit ''Completed'' @ bullet_id jid)\<rparr>\<rparr>)" for a
    unfolding poll_iter_completed_with[OF assms(1,3,4)]
    using assms(6) by (simp add: redraw_def final_fields_on_seeded[OF assms(4)])
  have run: "poll_loop jid (seed_msg jid m) (scripted_polls vw payload) =
      (Returned,
       mf\<lparr>content := (if final_content payload = None \<or> final_content payload = Some JNull then ?c
                         else content mf),
          meta := (meta mf)\<lparr>async := Some (lit ''Completed'' @ bullet_id jid)\<rparr>\<rparr>)"
    by (simp add: scripted_polls_def seed_msg_eq polling last)
  have keep: "content mf = content m"
    if "final_content payload = None \<or> final_content payload = Some JNull"
    using final_content_kept[OF that assms(4)] .
  show ?thesis
    unfolding run_after_submission[OF assms(2)] run
    using assms(5) keep by auto
qed

text \<open>
  Claim C5, as amended. Let the submission succeed with an id that converts to a string
  which can be encoded into the poll URL, let the final-payload merge of the payload
  return, and let the redraws of the message return (the document can draw the
  accumulator as it was and as the merge leaves it). Then on the scripted sequence
  SUBMITTED, POLLING, POLLING, COMPLETED whose last response attaches the payload, the
  poller returns, and the accumulator is the final-payload merge of that payload alone,
  except that the async note is \<open>Completed \<bullet> id: ...\<close> and that the content is the
  placeholder text when the accumulator had no content and the payload carries none.
\<close>
theorem async_run_scripted:
  assumes "truthy payload" and "js_String jidv = Inr jid" and "well_formed jid"
    and "applyPerplexityFinal m payload = Inr mf"
    and "updateMessageElement vw m = None" and "updateMessageElement vw mf = None"
  shows "runDeepResearchAsync m (deliver vw (job_created jidv)) (scripted_polls vw payload) =
     (Returned,
      mf\<lparr>content := (if content m = [] \<and> (final_content payload = None \<or> final_content payload = Some JNull)
                        then running_text else content mf),
         meta := (meta mf)\<lparr>async := Some (lit ''Completed'' @ bullet_id jid)\<rparr>\<rparr>)"
  using assms by (rule scripted_run_result)

lemma text_payload_facts:
  "truthy (text_payload t)"
  "final_content (text_payload t) = Some (JStr (lit t))"
  "applyPerplexityFinal fresh_msg (text_payload t) =
     Inr (fresh_msg\<lparr>content := lit t, meta := (meta fresh_msg)\<lparr>citations := JArr [JStr (lit ''u'')]\<rparr>\<rparr>)"
  by (simp_all add: text_payload_def final_content_def final_unfold set_content_def fresh_msg_def
      assign_if_def replace_or_keep_def)

lemma j1_facts: "js_String (JStr (lit ''j1'')) = Inr (lit ''j1'')" "well_formed (lit ''j1'')"
  by (simp_all add: lit_def)

lemma redraw_text_payload:
  "updateMessageElement (Shown cited)
     (fresh_msg\<lparr>content := c, meta := (meta fresh_msg)\<lparr>citations := JArr [JStr (lit ''u'')]\<rparr>\<rparr>) = None"
  by (simp add: updateMessageElement_def renderMetaBlocks_def renderAssistantHTML_def fresh_msg_def
      block_ok_def has_items_def usage_ok_def has_own_keys_def list_all_iff citation_ok_def
      stringifiable_def)

text \<open>
  Claim C5 as stated fails: on the fresh accumulator the poller returns an accumulator
  with the note \<open>Completed \<bullet> id: j1\<close>, while the final-payload merge alone leaves the
  note absent, so the two accumulators differ.
\<close>
theorem async_run_counterexample:
  "fst (runDeepResearchAsync fresh_msg (deliver (Shown [1]) (job_created (JStr (lit ''j1''))))
          (scripted_polls (Shown [1]) (text_payload ''x''))) = Returned \<and>
   async (meta (snd (runDeepResearchAsync fresh_msg (deliver (Shown [1]) (job_created (JStr (lit ''j1''))))
          (scripted_polls (Shown [1]) (text_payload ''x''))))) = Some (lit ''Completed'' @ bullet_id (lit ''j1'')) \<and>
   map_sum id (async \<circ> meta) (applyPerplexityFinal fresh_msg (text_payload ''x'')) = Inr None \<and>
   Inr (snd (runDeepResearchAsync fresh_msg (deliver (Shown [1]) (job_created (JStr (lit ''j1''))))
          (scripted_polls (Shown [1]) (text_payload ''x'')))) \<noteq> applyPerplexityFinal fresh_msg (text_payload ''x'')"
proof -
  let ?run = "runDeepResearchAsync fresh_msg (deliver (Shown [1]) (job_created (JStr (lit ''j1''))))
          (scripted_polls (Shown [1]) (text_payload ''x''))"
  have 1: "fst ?run = Returned"
    and 2: "async (meta (snd ?run)) = Some (lit ''Completed'' @ bullet_id (lit ''j1''))"
    by (simp_all add: scripted_run_result[OF text_payload_facts(1) j1_facts text_payload_facts(3)
          redraw_fresh redraw_text_payload])
  have 3: "map_sum id (async \<circ> meta) (applyPerplexityFinal fresh_msg (text_payload ''x'')) = Inr None"
    unfolding text_payload_facts(3) by (simp add: fresh_msg_def)
  have 4: "Inr (snd ?run) \<noteq> applyPerplexityFinal fresh_msg (text_payload ''x'')"
  proof
    assume a: "Inr (snd ?run) = applyPerplexityFinal fresh_msg (text_payload ''x'')"
    have "async (meta (snd ?run)) = None"
      using 3 unfolding a[symmetric] by simp
    then show False unfolding 2 by simp
  qed
  show ?thesis using 1 2 3 4 by simp
qed

text \<open>The scripted run on the fresh accumulator, with a payload of text \<open>x\<close> and one citation, which the content cites.\<close>
theorem async_run_scripted_witness:
  "truthy (text_payload ''x'') \<and> js_String (JStr (lit ''j1'')) = Inr (lit ''j1'') \<and>
   well_formed (lit ''j1'') \<and>
   applyPerplexityFinal fresh_msg (text_payload ''x'') =
     Inr (fresh_msg\<lparr>content := lit ''x'', meta := (meta fresh_msg)\<lparr>citations := JArr [JStr (lit ''u'')]\<rparr>\<rparr>) \<and>
   updateMessageElement (Shown [1]) fresh_msg = None \<and>
   updateMessageElement (Shown [1])
     (fresh_msg\<lparr>content := lit ''x'', meta := (meta fresh_msg)\<lparr>citations := JArr [JStr (lit ''u'')]\<rparr>\<rparr>) = None \<and>
   runDeepResearchAsync fresh_msg (deliver (Shown [1]) (job_created (JStr (lit ''j1''))))
       (scripted_polls (Shown [1]) (text_payload ''x'')) =
     (Returned,
      fresh_msg\<lparr>content := lit ''x'',
        meta := (meta fresh_msg)\<lparr>citations := JArr [JStr (lit ''u'')],
                  async := Some (lit ''Completed'' @ bullet_id (lit ''j1''))\<rparr>\<rparr>)"
  using async_run_scripted[OF text_payload_facts(1)[of "''x''"] j1_facts
      text_payload_facts(3)[of "''x''"] redraw_fresh[of "[1]"]
      redraw_text_payload[of "[1]" "lit ''x''"]]
    text_payload_facts(1,3)[of "''x''"] j1_facts redraw_fresh[of "[1]"]
    redraw_text_payload[of "[1]" "lit ''x''"]
  by (simp add: text_payload_facts(2))

text \<open>
  When the payload cannot be drawn, the run raises after the merge: the citations of
  \<open>misshapen_payload\<close> are a string, which has a length and no \<open>forEach\<close>.
\<close>

lemma misshapen_run_raises:
  "fst (runDeepResearchAsync fresh_msg (deliver (Shown []) (job_created (JStr (lit ''j1''))))
          (scripted_polls (Shown []) misshapen_payload)) = Threw TypeError"
proof -
  have f: "applyPerplexityFinal (fresh_msg\<lparr>content := c, meta := (meta fresh_msg)\<lparr>async := a\<rparr>\<rparr>) misshapen_payload =
      Inr (fresh_msg\<lparr>content := c, meta := (meta fresh_msg)\<lparr>citations := JStr (lit ''u''), async := a\<rparr>\<rparr>)" for c a
    by (simp add: misshapen_payload_def final_content_def final_unfold set_content_def fresh_msg_def
        assign_if_def replace_or_keep_def)
  have r: "updateMessageElement (Shown [])
      (fresh_msg\<lparr>content := c, meta := (meta fresh_msg)\<lparr>citations := JStr (lit ''u''), async := a\<rparr>\<rparr>) = Some TypeError" for c a
    by (simp add: updateMessageElement_def renderMetaBlocks_def renderAssistantHTML_def fresh_msg_def
        block_ok_def has_items_def)
  have t: "truthy misshapen_payload" by (simp add: misshapen_payload_def)
  have last: "poll_iter (lit ''j1'') (fresh_msg\<lparr>content := c, meta := (meta fresh_msg)\<lparr>async := a\<rparr>\<rparr>)
        (deliver (Shown []) (completed_with misshapen_payload)) =
       (Some (Threw TypeError),
        fresh_msg\<lparr>content := c, meta := (meta fresh_msg)\<lparr>citations := JStr (lit ''u''),
           async := Some (lit ''Completed'' @ bullet_id (lit ''j1''))\<rparr>\<rparr>)" for c a
    by (subst poll_iter_delivered[where r = "ok_json (completed_with misshapen_payload)"
          and data = "completed_with misshapen_payload"])
       (simp_all add: completed_with_def status_text_def j1_facts t f r redraw_def lit_eq_iff)
  show ?thesis
    unfolding run_after_submission[OF j1_facts(1)]
    by (simp add: redraw_fresh scripted_polls_def seed_msg_eq poll_iter_status_only j1_facts
        redraw_def last)
qed



lemma one_poll_pending:
  "poll_loop (lit ''j1'') fresh_msg [deliver (Shown []) (status_only ''POLLING'')] =
     (Pending, fresh_msg\<lparr>meta := (meta fresh_msg)
        \<lparr>async := Some (lit ''Status: POLLING'' @ bullet_id (lit ''j1''))\<rparr>\<rparr>)"
  by (simp add: poll_iter_status_only j1_facts redraw_def redraw_fresh lit_def)

text \<open>
  After one poll, the signal is tripped while the next request is pending, and the
  response that arrives is the completed job with its payload: the payload is not merged.
\<close>
theorem poll_loop_cancelled_witness:
  "trip late_completion \<noteq> None \<and>
   poll_loop (lit ''j1'') fresh_msg
      ([deliver (Shown []) (status_only ''POLLING'')] @ late_completion #
         [deliver (Shown []) (completed_with (text_payload ''x''))]) =
     (Threw AbortError, fresh_msg\<lparr>meta := (meta fresh_msg)
        \<lparr>async := Some (lit ''Status: POLLING'' @ bullet_id (lit ''j1''))\<rparr>\<rparr>)"
proof -
  let ?run = "poll_loop (lit ''j1'') fresh_msg
      ([deliver (Shown []) (status_only ''POLLING'')] @ late_completion #
         [deliver (Shown []) (completed_with (text_payload ''x''))])"
  have t: "trip late_completion \<noteq> None"
    by (simp add: late_completion_def)
  have n: "net late_completion \<noteq> Inl e" for e
    by (simp add: late_completion_def)
  have "poll_iter (lit ''j1'') m late_completion = (Some (Threw AbortError), m)" for m
    using j1_facts(2) by (simp add: poll_iter_def late_completion_def await_fetch_def)
  then have u: "fst ?run \<noteq> Threw URIError"
    using j1_facts(2) by (simp add: poll_iter_status_only redraw_def redraw_fresh)
  show ?thesis
    using poll_loop_cancelled[OF one_poll_pending t,
        of "[deliver (Shown []) (completed_with (text_payload ''x''))]"] t n u
    by auto
qed

subsection \<open>Payload builder\<close>

lemma has_key_obj: "has_key (JObj kvs) k \<longleftrightarrow> k \<in> fst ` set kvs"
  by (simp add: has_key_def map_of_eq_None_iff)

lemma put_keys:
  "k \<in> fst ` set (put_str k' v) \<longleftrightarrow> k = k' \<and> active_str v"
  "k \<in> fst ` set (put_num k' n) \<longleftrightarrow> k = k' \<and> n \<noteq> None"
  "k \<in> fst ` set (put_flag k' b) \<longleftrightarrow> k = k' \<and> b"
  "k \<in> fst ` set (put_list k' xs) \<longleftrightarrow> k = k' \<and> xs \<noteq> []"
  "k \<in> fst ` set (if c then [(k', x)] else []) \<longleftrightarrow> k = k' \<and> c"
  by (auto simp add: put_str_def put_num_def put_flag_def put_list_def active_str_def
      split: option.splits)

lemma put_str_nonempty:
  "length (put_str k a @ put_str k' b) \<noteq> 0 \<longleftrightarrow> active_str a \<or> active_str b"
  by (auto simp add: put_str_def active_str_def split: option.splits)

lemma payload_keys:
  assumes "buildPayload s thread_messages = Inr p"
  shows "has_key p k \<longleftrightarrow>
     k \<in> {lit ''model'', lit ''messages'', lit ''search_mode'', lit ''stream'', lit ''stream_mode'',
          lit ''safe_search''}
     \<or> k = lit ''max_tokens'' \<and> max_tokens s \<noteq> None
     \<or> k = lit ''reasoning_effort'' \<and> active_str (reasoning_effort s)
     \<or> k = lit ''language_preference'' \<and> active_str (language_preference s)
     \<or> k = lit ''return_images'' \<and> return_images s
     \<or> k = lit ''return_related_questions'' \<and> return_related_questions s
     \<or> k = lit ''enable_search_classifier'' \<and> enable_search_classifier s
     \<or> k = lit ''disable_search'' \<and> disable_search s
     \<or> k = lit ''search_domain_filter'' \<and> search_domain_filter s \<noteq> []
     \<or> k = lit ''search_language_filter'' \<and> search_language_filter s \<noteq> []
     \<or> k = lit ''search_recency_filter'' \<and> active_str (search_recency_filter s)
     \<or> k = lit ''image_domain_filter'' \<and> image_domain_filter s \<noteq> []
     \<or> k = lit ''image_format_filter'' \<and> image_format_filter s \<noteq> []
     \<or> k = lit ''web_search_options'' \<and>
         (active_str (search_context_size (web_search_options s))
          \<or> active_str (search_type (web_search_options s)))
     \<or> k = lit ''media_response'' \<and> return_videos (overrides (media_response s))"
proof (cases "all_or_raise (map clone_message thread_messages)")
  case (Inl e)
  then show ?thesis using assms by (simp add: buildPayload_def)
next
  case (Inr msgs)
  note p = assms[unfolded buildPayload_def Inr Let_def sum.case sum.inject, symmetric]
  show ?thesis
    unfolding p has_key_obj set_append image_Un Un_iff put_keys put_str_nonempty
    by (simp del: insert_iff add: insert_iff[symmetric] split del: if_split)
qed

lemma lookup_skip:
  assumes "k \<notin> fst ` set A"
  shows "map_of (rev (A @ B)) k = map_of (rev B) k"
proof -
  have "map_of (rev A) k = None"
    using assms by (simp add: map_of_eq_None_iff)
  then show ?thesis
    by (simp add: map_add_def split: option.splits)
qed

lemma lookup_last:
  assumes "k \<notin> fst ` set B"
  shows "map_of (rev (A @ B)) k = map_of (rev A) k"
proof -
  have "map_of (rev B) k = None"
    using assms by (simp add: map_of_eq_None_iff)
  then show ?thesis
    by (simp add: map_add_def)
qed

lemma payload_web_search_options:
  assumes "buildPayload s thread_messages = Inr p"
  shows "js_get p (lit ''web_search_options'') =
     (if active_str (search_context_size (web_search_options s))
         \<or> active_str (search_type (web_search_options s))
      then Some (JObj (put_str (lit ''search_context_size'') (search_context_size (web_search_options s))
                       @ put_str (lit ''search_type'') (search_type (web_search_options s))))
      else None)"
proof (cases "all_or_raise (map clone_message thread_messages)")
  case (Inl e)
  then show ?thesis using assms by (simp add: buildPayload_def)
next
  case (Inr msgs)
  note p = assms[unfolded buildPayload_def Inr Let_def sum.case sum.inject, symmetric]
  show ?thesis
    unfolding p js_get.simps put_str_nonempty
    apply ((subst lookup_skip, (simp add: put_keys; fail))+)
    apply simp
    done
qed

lemma wso_keys:
  assumes "buildPayload s thread_messages = Inr p"
  shows "has_key2 p (lit ''web_search_options'') k \<longleftrightarrow>
     k = lit ''search_context_size'' \<and> active_str (search_context_size (web_search_options s))
     \<or> k = lit ''search_type'' \<and> active_str (search_type (web_search_options s))"
proof -
  let ?a = "search_context_size (web_search_options s)" and ?b = "search_type (web_search_options s)"
  let ?wso = "JObj (put_str (lit ''search_context_size'') ?a @ put_str (lit ''search_type'') ?b)"
  have inner: "has_key ?wso k
     \<longleftrightarrow> k = lit ''search_context_size'' \<and> active_str ?a \<or> k = lit ''search_type'' \<and> active_str ?b"
    unfolding has_key_obj set_append image_Un Un_iff put_keys by simp
  show ?thesis
  proof (cases "active_str ?a \<or> active_str ?b")
    case True
    then have "has_key2 p (lit ''web_search_options'') k = has_key ?wso k"
      unfolding has_key2_def payload_web_search_options[OF assms] has_key_def by simp
    then show ?thesis using inner by simp
  next
    case False
    then have "\<not> has_key2 p (lit ''web_search_options'') k"
      unfolding has_key2_def payload_web_search_options[OF assms] by simp
    then show ?thesis using False by simp
  qed
qed

text \<open>The fields of the object literal are in every payload, with the values of the settings.\<close>

lemma payload_literal_fields:
  assumes "buildPayload s thread_messages = Inr p"
  shows "js_get p (lit ''model'') = Some (JStr (model s)) \<and>
     js_get p (lit ''search_mode'') = Some (JStr (search_mode s)) \<and>
     js_get p (lit ''stream'') = Some (JBool (stream s)) \<and>
     js_get p (lit ''stream_mode'') =
           Some (JStr (if stream_mode s \<noteq> [] then stream_mode s else lit ''full'')) \<and>
     js_get p (lit ''safe_search'') = Some (JBool (safe_search s))"
proof -
  have tail: "k \<notin> fst ` set
     (put_num (lit ''max_tokens'') (max_tokens s)
      @ put_str (lit ''reasoning_effort'') (reasoning_effort s)
      @ put_str (lit ''language_preference'') (language_preference s)
      @ put_flag (lit ''return_images'') (return_images s)
      @ put_flag (lit ''return_related_questions'') (return_related_questions s)
      @ put_flag (lit ''enable_search_classifier'') (enable_search_classifier s)
      @ put_flag (lit ''disable_search'') (disable_search s)
      @ put_list (lit ''search_domain_filter'') (search_domain_filter s)
      @ put_list (lit ''search_language_filter'') (search_language_filter s)
      @ put_str (lit ''search_recency_filter'') (search_recency_filter s)
      @ put_list (lit ''image_domain_filter'') (image_domain_filter s)
      @ put_list (lit ''image_format_filter'') (image_format_filter s)
      @ (if c then [(lit ''web_search_options'', w)] else [])
      @ (if c' then [(lit ''media_response'', w')] else []))"
    if "k \<in> {lit ''model'', lit ''search_mode'', lit ''stream'', lit ''stream_mode'', lit ''safe_search''}"
    for k c c' w w'
    unfolding set_append image_Un Un_iff put_keys using that by auto
  show ?thesis
  proof (cases "all_or_raise (map clone_message thread_messages)")
    case (Inl e)
    then show ?thesis using assms by (simp add: buildPayload_def)
  next
    case (Inr msgs)
    note p = assms[unfolded buildPayload_def Inr Let_def sum.case sum.inject, symmetric]
    show ?thesis
      unfolding p js_get.simps
      by (simp only: lookup_last[OF tail] insert_iff simp_thms) simp
  qed
qed

text \<open>The builder returns when every message of the thread can be cloned.\<close>

lemma all_or_raise_Inr:
  "(\<And>r. r \<in> set rs \<Longrightarrow> \<exists>x. r = Inr x) \<Longrightarrow> \<exists>xs. all_or_raise rs = Inr xs"
  by (induction rs) (auto split: sum.splits)

lemma buildPayload_returns:
  assumes "\<And>m. m \<in> set thread_messages \<Longrightarrow> \<exists>j. clone_message m = Inr j"
  shows "\<exists>p. buildPayload s thread_messages = Inr p"
proof -
  have "\<exists>xs. all_or_raise (map clone_message thread_messages) = Inr xs"
    using assms by (intro all_or_raise_Inr) auto
  then show ?thesis by (auto simp add: buildPayload_def Let_def split del: if_split)
qed

text \<open>
  Claim C7, as amended. When the builder returns, each field that it adds conditionally is
  in the payload exactly when its setting is active: a number that is not null, a string
  that is neither null nor empty, a flag that is set, a list that is not empty;
  \<open>web_search_options\<close> exactly when one of its two strings is active, and then with
  the active ones only. So the payload of a configuration with \<open>max_tokens: null\<close> and
  \<open>search_domain_filter: []\<close> has neither key. The fields of the object literal are in
  every payload: \<open>model\<close>, \<open>messages\<close>, \<open>search_mode\<close>, \<open>stream_mode\<close>,
  and the flags \<open>stream\<close> and \<open>safe_search\<close> with their values, also when these
  are false.
\<close>
theorem buildPayload_optional_fields:
  assumes "buildPayload s thread_messages = Inr p"
  shows
  "(has_key p (lit ''max_tokens'') \<longleftrightarrow> max_tokens s \<noteq> None) \<and>
   (has_key p (lit ''reasoning_effort'') \<longleftrightarrow> active_str (reasoning_effort s)) \<and>
   (has_key p (lit ''language_preference'') \<longleftrightarrow> active_str (language_preference s)) \<and>
   (has_key p (lit ''return_images'') \<longleftrightarrow> return_images s) \<and>
   (has_key p (lit ''return_related_questions'') \<longleftrightarrow> return_related_questions s) \<and>
   (has_key p (lit ''enable_search_classifier'') \<longleftrightarrow> enable_search_classifier s) \<and>
   (has_key p (lit ''disable_search'') \<longleftrightarrow> disable_search s) \<and>
   (has_key p (lit ''search_domain_filter'') \<longleftrightarrow> search_domain_filter s \<noteq> []) \<and>
   (has_key p (lit ''search_language_filter'') \<longleftrightarrow> search_language_filter s \<noteq> []) \<and>
   (has_key p (lit ''search_recency_filter'') \<longleftrightarrow> active_str (search_recency_filter s)) \<and>
   (has_key p (lit ''image_domain_filter'') \<longleftrightarrow> image_domain_filter s \<noteq> []) \<and>
   (has_key p (lit ''image_format_filter'') \<longleftrightarrow> image_format_filter s \<noteq> []) \<and>
   (has_key p (lit ''web_search_options'') \<longleftrightarrow>
      active_str (search_context_size (web_search_options s))
      \<or> active_str (search_type (web_search_options s))) \<and>
   (has_key2 p (lit ''web_search_options'') (lit ''search_context_size'') \<longleftrightarrow>
      active_str (search_context_size (web_search_options s))) \<and>
   (has_key2 p (lit ''web_search_options'') (lit ''search_type'') \<longleftrightarrow>
      active_str (search_type (web_search_options s))) \<and>
   (has_key p (lit ''media_response'') \<longleftrightarrow>
      return_videos (overrides (media_response s))) \<and>
   has_key p (lit ''model'') \<and> has_key p (lit ''messages'') \<and>
   has_key p (lit ''search_mode'') \<and> has_key p (lit ''stream_mode'') \<and>
   js_get p (lit ''stream'') = Some (JBool (stream s)) \<and>
   js_get p (lit ''safe_search'') = Some (JBool (safe_search s))"
proof -
  note pk = payload_keys[OF assms]
  have k: "has_key p (lit ''max_tokens'') \<longleftrightarrow> max_tokens s \<noteq> None"
    "has_key p (lit ''reasoning_effort'') \<longleftrightarrow> active_str (reasoning_effort s)"
    "has_key p (lit ''language_preference'') \<longleftrightarrow> active_str (language_preference s)"
    "has_key p (lit ''return_images'') \<longleftrightarrow> return_images s"
    "has_key p (lit ''return_related_questions'') \<longleftrightarrow> return_related_questions s"
    "has_key p (lit ''enable_search_classifier'') \<longleftrightarrow> enable_search_classifier s"
    "has_key p (lit ''disable_search'') \<longleftrightarrow> disable_search s"
    "has_key p (lit ''search_domain_filter'') \<longleftrightarrow> search_domain_filter s \<noteq> []"
    "has_key p (lit ''search_language_filter'') \<longleftrightarrow> search_language_filter s \<noteq> []"
    "has_key p (lit ''search_recency_filter'') \<longleftrightarrow> active_str (search_recency_filter s)"
    "has_key p (lit ''image_domain_filter'') \<longleftrightarrow> image_domain_filter s \<noteq> []"
    "has_key p (lit ''image_format_filter'') \<longleftrightarrow> image_format_filter s \<noteq> []"
    "has_key p (lit ''web_search_options'') \<longleftrightarrow>
      active_str (search_context_size (web_search_options s))
      \<or> active_str (search_type (web_search_options s))"
    "has_key p (lit ''media_response'') \<longleftrightarrow>
      return_videos (overrides (media_response s))"
    "has_key p (lit ''model'')" "has_key p (lit ''messages'')"
    "has_key p (lit ''search_mode'')" "has_key p (lit ''stream_mode'')"
    by (simp_all add: pk)
  have w: "has_key2 p (lit ''web_search_options'') (lit ''search_context_size'') \<longleftrightarrow>
      active_str (search_context_size (web_search_options s))"
    "has_key2 p (lit ''web_search_options'') (lit ''search_type'') \<longleftrightarrow>
      active_str (search_type (web_search_options s))"
    by (simp_all add: wso_keys[OF assms])
  have l: "js_get p (lit ''stream'') = Some (JBool (stream s))"
    "js_get p (lit ''safe_search'') = Some (JBool (safe_search s))"
    using payload_literal_fields[OF assms] by simp_all
  show ?thesis
    by (intro conjI k w l)
qed

lemma default_payload:
  "buildPayload DEFAULT_SETTINGS [] =
     Inr (JObj [(lit ''model'', JStr (lit ''sonar'')), (lit ''messages'', JArr []),
                (lit ''search_mode'', JStr (lit ''web'')), (lit ''stream'', JBool True),
                (lit ''stream_mode'', JStr (lit ''full'')), (lit ''safe_search'', JBool True)])"
  "buildPayload (DEFAULT_SETTINGS\<lparr>max_tokens := Some 256\<rparr>) [] =
     Inr (JObj [(lit ''model'', JStr (lit ''sonar'')), (lit ''messages'', JArr []),
                (lit ''search_mode'', JStr (lit ''web'')), (lit ''stream'', JBool True),
                (lit ''stream_mode'', JStr (lit ''full'')), (lit ''safe_search'', JBool True),
                (lit ''max_tokens'', JNum 256)])"
  by (simp_all add: buildPayload_def DEFAULT_SETTINGS_def put_str_def put_num_def put_flag_def
      put_list_def)

lemma default_inactive:
  "max_tokens DEFAULT_SETTINGS = None" "search_domain_filter DEFAULT_SETTINGS = []"
  "max_tokens (DEFAULT_SETTINGS\<lparr>max_tokens := Some 256\<rparr>) \<noteq> None"
  by (simp_all add: DEFAULT_SETTINGS_def)

text \<open>
  Claim C7 as stated fails: with streaming and safe search switched off, the payload
  has the keys \<open>stream\<close> and \<open>safe_search\<close>, with the value false.
\<close>
theorem buildPayload_inactive_flags_counterexample:
  "stream flags_off = False \<and> safe_search flags_off = False \<and>
   buildPayload flags_off [] =
     Inr (JObj [(lit ''model'', JStr (lit ''sonar'')), (lit ''messages'', JArr []),
                (lit ''search_mode'', JStr (lit ''web'')), (lit ''stream'', JBool False),
                (lit ''stream_mode'', JStr (lit ''full'')), (lit ''safe_search'', JBool False)])"
  by (simp add: buildPayload_def flags_off_def DEFAULT_SETTINGS_def put_str_def put_num_def
      put_flag_def put_list_def)

text \<open>The default settings give neither key; with \<open>max_tokens: 256\<close> the key is there.\<close>
theorem buildPayload_optional_fields_witness:
  "buildPayload DEFAULT_SETTINGS [] =
     Inr (JObj [(lit ''model'', JStr (lit ''sonar'')), (lit ''messages'', JArr []),
                (lit ''search_mode'', JStr (lit ''web'')), (lit ''stream'', JBool True),
                (lit ''stream_mode'', JStr (lit ''full'')), (lit ''safe_search'', JBool True)]) \<and>
   max_tokens DEFAULT_SETTINGS = None \<and> search_domain_filter DEFAULT_SETTINGS = [] \<and>
   \<not> has_key (JObj [(lit ''model'', JStr (lit ''sonar'')), (lit ''messages'', JArr []),
                (lit ''search_mode'', JStr (lit ''web'')), (lit ''stream'', JBool True),
                (lit ''stream_mode'', JStr (lit ''full'')), (lit ''safe_search'', JBool True)])
        (lit ''max_tokens'') \<and>
   \<not> has_key (JObj [(lit ''model'', JStr (lit ''sonar'')), (lit ''messages'', JArr []),
                (lit ''search_mode'', JStr (lit ''web'')), (lit ''stream'', JBool True),
                (lit ''stream_mode'', JStr (lit ''full'')), (lit ''safe_search'', JBool True)])
        (lit ''search_domain_filter'') \<and>
   buildPayload (DEFAULT_SETTINGS\<lparr>max_tokens := Some 256\<rparr>) [] =
     Inr (JObj [(lit ''model'', JStr (lit ''sonar'')), (lit ''messages'', JArr []),
                (lit ''search_mode'', JStr (lit ''web'')), (lit ''stream'', JBool True),
                (lit ''stream_mode'', JStr (lit ''full'')), (lit ''safe_search'', JBool True),
                (lit ''max_tokens'', JNum 256)]) \<and>
   has_key (JObj [(lit ''model'', JStr (lit ''sonar'')), (lit ''messages'', JArr []),
                (lit ''search_mode'', JStr (lit ''web'')), (lit ''stream'', JBool True),
                (lit ''stream_mode'', JStr (lit ''full'')), (lit ''safe_search'', JBool True),
                (lit ''max_tokens'', JNum 256)])
        (lit ''max_tokens'')"
proof -
  note a = buildPayload_optional_fields[OF default_payload(1)]
  note b = buildPayload_optional_fields[OF default_payload(2)]
  show ?thesis
    using conjunct1[OF a] conjunct1[OF conjunct2[OF conjunct2[OF conjunct2[OF conjunct2[OF conjunct2[OF conjunct2[OF conjunct2[OF a]]]]]]]]
      conjunct1[OF b] default_inactive default_payload
    by simp
qed

subsection \<open>Server proxy\<close>

lemma getApiKey_blank:
  assumes "no_credential req"
  shows "getApiKey req = []"
proof -
  have a: "blank_header req (lit ''x-pplx-key'')" and b: "blank_header req (lit ''x-perplexity-key'')"
    using assms by (simp_all add: no_credential_def)
  have second: "(case req_header req (lit ''x-perplexity-key'') of None \<Rightarrow> []
      | Some k \<Rightarrow> if k \<noteq> [] then trim k else []) = []"
    using b by (simp add: blank_header_def split: option.splits)
  show ?thesis
  proof (cases "req_header req (lit ''x-pplx-key'')")
    case None
    then show ?thesis using second by (simp add: getApiKey_def)
  next
    case (Some k)
    then have "trim k = []" using a by (simp add: blank_header_def)
    then show ?thesis using Some second by (simp add: getApiKey_def)
  qed
qed

text \<open>
  Claim C8. For a request whose two key headers are each absent or white space only, the
  proxy makes no upstream call and answers with status 400 and the fixed error body.
\<close>
theorem proxy_missing_credential:
  assumes "no_credential req"
  shows "proxyPerplexity req target upstream =
     ([], Inr \<lparr>status = 400, headers = [],
               sent = SentJson (JObj [(lit ''error'',
                 JStr (lit ''Missing API key. Send it in the x-pplx-key header.''))])\<rparr>)"
  by (simp add: proxyPerplexity_def getApiKey_blank[OF assms])

lemma no_credential_examples: "no_credential bare_request" "no_credential spaces_request"
  by (simp_all add: no_credential_def blank_header_def bare_request_def spaces_request_def trim_def
      js_space_def)

text \<open>A request whose key header is two spaces.\<close>
theorem proxy_missing_credential_witness:
  "no_credential spaces_request \<and>
   fst (proxyPerplexity spaces_request chat_target no_content) = [] \<and>
   map_sum id status (snd (proxyPerplexity spaces_request chat_target no_content)) = Inr 400"
  using proxy_missing_credential[OF no_credential_examples(2), of chat_target no_content]
    no_credential_examples(2) by simp

text \<open>With a key, the upstream is called once and its status relayed.\<close>
lemma keyed_request_called:
  "map call_url (fst (proxyPerplexity keyed_request chat_target no_content)) =
     [lit ''https://api.perplexity.ai/chat/completions''] \<and>
   map_sum id status (snd (proxyPerplexity keyed_request chat_target no_content)) = Inr 204"
  by (simp add: proxyPerplexity_def getApiKey_def keyed_request_def chat_target_def no_content_def
      trim_def js_space_def lit_def Let_def)

end
